theory Spec2Isabelle
  imports Complex_Main "HOL-Library.Char_ord" "HOL-Library.List_Lexorder" "HOL-Library.Multiset"
begin

section \<open>Values exchanged with the backend\<close>

text \<open>
  The SDK (\<^verbatim>\<open>src/synauth/client.py\<close>, \<^verbatim>\<open>src/synauth/pay.py\<close>) sends and receives
  JSON. A Python \<^verbatim>\<open>dict\<close> is an association list in insertion order, read with
  \<open>map_of\<close>; Python's \<^verbatim>\<open>None\<close> is \<open>JNull\<close>. Python floats (amounts, clock readings,
  durations) are exact rationals here: the code only stores, adds and compares them.
\<close>

datatype json =
    JNull
  | JBool bool
  | JNum rat
  | JStr string
  | JArr "json list"
  | JObj "(string \<times> json) list"

text \<open>
  The exceptions of \<^verbatim>\<open>client.py\<close>, and the built-in ones its statements can raise.
  \<open>RateLimitError\<close> is the subclass of \<open>SynAuthAPIError\<close> with status code 429.
  The detail text of \<open>VaultExecutionError\<close> is the f-string
  \<^verbatim>\<open>Unexpected status '{status}' for request {request_id}\<close>; the two interpolated
  values are kept as they are.
\<close>

datatype error =
    SynAuthAPIError int json
  | RateLimitError string
  | ActionExpiredError json
  | ActionDeniedError json json
  | VaultExecutionError json json
  | ValueError
  | KeyError
  | TypeError
  | AttributeError
  | RecursionError
  | OverflowError
  | ConnectionError

fun isinstance_SynAuthAPIError :: "error \<Rightarrow> bool" where
  "isinstance_SynAuthAPIError (SynAuthAPIError _ _) = True"
| "isinstance_SynAuthAPIError (RateLimitError _) = True"
| "isinstance_SynAuthAPIError _ = False"

fun error_status_code :: "error \<Rightarrow> int option" where
  "error_status_code (SynAuthAPIError c _) = Some c"
| "error_status_code (RateLimitError _) = Some 429"
| "error_status_code _ = None"

text \<open>\<^verbatim>\<open>d[k]\<close>: \<open>KeyError\<close> on a dict without the key, \<open>TypeError\<close> on any other value.\<close>

fun subscript :: "json \<Rightarrow> string \<Rightarrow> error + json" where
  "subscript (JObj kv) k = (case map_of kv k of None \<Rightarrow> Inl KeyError | Some v \<Rightarrow> Inr v)"
| "subscript _ k = Inl TypeError"

text \<open>\<^verbatim>\<open>d.get(k)\<close>: \<^verbatim>\<open>None\<close> without the key, \<open>AttributeError\<close> when \<open>d\<close> is no dict.\<close>

fun dict_get :: "json \<Rightarrow> string \<Rightarrow> error + json" where
  "dict_get (JObj kv) k = (case map_of kv k of None \<Rightarrow> Inr JNull | Some v \<Rightarrow> Inr v)"
| "dict_get _ k = Inl AttributeError"

section \<open>The backend and the clock\<close>

text \<open>
  A \<open>response\<close> is what \<^verbatim>\<open>session.request\<close> returns: \<open>json_body\<close> is the outcome of
  \<^verbatim>\<open>resp.json()\<close>, the value or the exception it raises (\<open>ValueError\<close> for a body that
  is no JSON, \<open>RecursionError\<close> for one that is nested too deeply for the parser);
  \<open>elapsed\<close> is the wall-clock time the round trip took.
\<close>

record response =
  status_code :: int
  resp_text :: string
  json_body :: "error + json"
  elapsed :: rat

text \<open>
  \<^verbatim>\<open>resp.ok\<close> of the \<^verbatim>\<open>requests\<close> library: false exactly when \<^verbatim>\<open>raise_for_status\<close>
  raises, that is for the 4xx and 5xx status codes.
\<close>

definition ok :: "response \<Rightarrow> bool" where
  "ok resp = (\<not> (400 \<le> status_code resp \<and> status_code resp < 600))"

datatype path =
    ActionsPath
  | ActionPath json
  | VaultExecutePath json

record http_call =
  call_key :: string
  call_method :: string
  call_url :: string
  call_path :: path
  call_json :: "json option"

text \<open>
  The world outside the client: the clock \<^verbatim>\<open>time.time()\<close>, the responses the backend
  will give to the coming requests, and the requests sent so far. When the backend has no
  response left the transport raises \<open>ConnectionError\<close>.
\<close>

record world =
  now :: rat
  script :: "response list"
  calls :: "http_call list"

text \<open>
  \<^verbatim>\<open>time.sleep(d)\<close> raises \<open>ValueError\<close> on a negative length, and \<open>OverflowError\<close>
  on a length that does not fit the signed 64-bit count of nanoseconds it is converted
  to (from about 9.2e9 seconds).
\<close>

definition sleep_max :: rat where
  "sleep_max = (2 ^ 63 - 1) / 10 ^ 9"

definition sleep :: "rat \<Rightarrow> world \<Rightarrow> (error + unit) \<times> world" where
  "sleep d w =
     (if d < 0 then (Inl ValueError, w)
      else if sleep_max < d then (Inl OverflowError, w)
      else (Inr (), w\<lparr>now := now w + d\<rparr>))"

section \<open>SynAuthClient\<close>

record client =
  api_key :: string
  base_url :: string

definition API_VERSION :: string where
  "API_VERSION = ''v1''"

definition rstrip_slash :: "string \<Rightarrow> string" where
  "rstrip_slash s = rev (dropWhile (\<lambda>c. c = CHR ''/'') (rev s))"

definition SynAuthClient :: "string \<Rightarrow> string \<Rightarrow> client" where
  "SynAuthClient key url = \<lparr>api_key = key, base_url = rstrip_slash url\<rparr>"

definition default_base_url :: string where
  "default_base_url = ''https://synauth.fly.dev''"

definition mk_call :: "client \<Rightarrow> string \<Rightarrow> path \<Rightarrow> json option \<Rightarrow> http_call" where
  "mk_call self method path body =
     \<lparr>call_key = api_key self, call_method = method,
      call_url = base_url self @ ''/api/'' @ API_VERSION, call_path = path,
      call_json = body\<rparr>"

text \<open>
  \<^verbatim>\<open>SynAuthClient._request\<close>, lines 107 to 125. The clause
  \<^verbatim>\<open>except (ValueError, KeyError)\<close> catches these two exceptions of
  \<^verbatim>\<open>resp.json().get("detail", resp.text)\<close>; any other one goes on to the caller, like the
  \<open>AttributeError\<close> of \<^verbatim>\<open>.get\<close> on a body that is JSON but no object.
\<close>

definition request :: "client \<Rightarrow> string \<Rightarrow> path \<Rightarrow> json option \<Rightarrow> world \<Rightarrow> (error + json) \<times> world" where
  "request self method path body w =
     (case script w of
        [] \<Rightarrow> (Inl ConnectionError, w\<lparr>calls := calls w @ [mk_call self method path body]\<rparr>)
      | resp # rest \<Rightarrow>
          (let w' = w\<lparr>now := now w + elapsed resp, script := rest,
                      calls := calls w @ [mk_call self method path body]\<rparr>
           in if status_code resp = 429 then (Inl (RateLimitError ''Rate limit exceeded''), w')
              else if \<not> ok resp then
                (case json_body resp of
                   Inr (JObj kv) \<Rightarrow>
                     (Inl (SynAuthAPIError (status_code resp)
                        (case map_of kv ''detail'' of None \<Rightarrow> JStr (resp_text resp) | Some d \<Rightarrow> d)), w')
                 | Inr _ \<Rightarrow> (Inl AttributeError, w')
                 | Inl e \<Rightarrow>
                     if e = ValueError \<or> e = KeyError then
                       (Inl (SynAuthAPIError (status_code resp) (JStr (resp_text resp))), w')
                     else (Inl e, w'))
              else
                (case json_body resp of
                   Inl e \<Rightarrow> (Inl e, w')
                 | Inr j \<Rightarrow> (Inr j, w'))))"

text \<open>
  \<^verbatim>\<open>SynAuthClient.request_action\<close>, lines 129 to 168. \<open>payload[k] = v\<close> appends the key.
  The tests \<^verbatim>\<open>if description:\<close> and the like are Python truthiness: \<^verbatim>\<open>None\<close> and the
  empty string or dict are false.
\<close>

definition request_action_payload ::
  "string \<Rightarrow> string \<Rightarrow> string option \<Rightarrow> string \<Rightarrow> bool \<Rightarrow> rat option \<Rightarrow> string \<Rightarrow>
   string option \<Rightarrow> (string \<times> json) list option \<Rightarrow> int \<Rightarrow> string option \<Rightarrow> (string \<times> json) list" where
  "request_action_payload action_type title description risk_level reversible amount currency
      recipient metadata expires_in_seconds callback_url =
     (let payload = [(''action_type'', JStr action_type), (''title'', JStr title),
                     (''risk_level'', JStr risk_level), (''reversible'', JBool reversible),
                     (''expires_in_seconds'', JNum (of_int expires_in_seconds))];
          payload = (case description of
                       Some d \<Rightarrow> if d \<noteq> [] then payload @ [(''description'', JStr d)] else payload
                     | None \<Rightarrow> payload);
          payload = (case amount of
                       Some a \<Rightarrow> payload @ [(''amount'', JNum a), (''currency'', JStr currency)]
                     | None \<Rightarrow> payload);
          payload = (case recipient of
                       Some r \<Rightarrow> if r \<noteq> [] then payload @ [(''recipient'', JStr r)] else payload
                     | None \<Rightarrow> payload);
          payload = (case metadata of
                       Some m \<Rightarrow> if m \<noteq> [] then payload @ [(''metadata'', JObj m)] else payload
                     | None \<Rightarrow> payload);
          payload = (case callback_url of
                       Some c \<Rightarrow> if c \<noteq> [] then payload @ [(''callback_url'', JStr c)] else payload
                     | None \<Rightarrow> payload)
      in payload)"

definition request_action ::
  "client \<Rightarrow> string \<Rightarrow> string \<Rightarrow> string option \<Rightarrow> string \<Rightarrow> bool \<Rightarrow> rat option \<Rightarrow> string \<Rightarrow>
   string option \<Rightarrow> (string \<times> json) list option \<Rightarrow> int \<Rightarrow> string option \<Rightarrow>
   world \<Rightarrow> (error + json) \<times> world" where
  "request_action self action_type title description risk_level reversible amount currency
      recipient metadata expires_in_seconds callback_url w =
     request self ''POST'' ActionsPath
       (Some (JObj (request_action_payload action_type title description risk_level reversible
          amount currency recipient metadata expires_in_seconds callback_url))) w"

text \<open>\<^verbatim>\<open>SynAuthClient.get_status\<close>, lines 170 to 172.\<close>

definition get_status :: "client \<Rightarrow> json \<Rightarrow> world \<Rightarrow> (error + json) \<times> world" where
  "get_status self request_id w = request self ''GET'' (ActionPath request_id) None w"

text \<open>
  \<^verbatim>\<open>SynAuthClient.wait_for_result\<close>, lines 174 to 187. \<open>wait_loop\<close> is the \<^verbatim>\<open>while\<close>
  loop with the final \<^verbatim>\<open>return self.get_status(request_id)\<close>; each turn that goes on
  has used up one response of the backend.
\<close>

function wait_loop :: "client \<Rightarrow> json \<Rightarrow> rat \<Rightarrow> rat \<Rightarrow> rat \<Rightarrow> world \<Rightarrow> (error + json) \<times> world" where
  "wait_loop self request_id start timeout poll_interval w =
     (if now w - start < timeout then
        (case get_status self request_id w of
           (Inl e, w1) \<Rightarrow> (Inl e, w1)
         | (Inr status, w1) \<Rightarrow>
             (case subscript status ''status'' of
                Inl e \<Rightarrow> (Inl e, w1)
              | Inr s \<Rightarrow>
                  if s \<noteq> JStr ''pending'' then (Inr status, w1)
                  else (case sleep poll_interval w1 of
                          (Inl e, w2) \<Rightarrow> (Inl e, w2)
                        | (Inr _, w2) \<Rightarrow> wait_loop self request_id start timeout poll_interval w2)))
      else get_status self request_id w)"
  by pat_completeness auto
termination
  apply (relation "measure (\<lambda>(self, request_id, start, timeout, poll_interval, w). length (script w))")
   apply simp
  apply (auto simp: get_status_def request_def sleep_def Let_def
              split: if_splits list.splits sum.splits json.splits)
  done

declare wait_loop.simps [simp del]

definition wait_for_result :: "client \<Rightarrow> json \<Rightarrow> rat \<Rightarrow> rat \<Rightarrow> world \<Rightarrow> (error + json) \<times> world" where
  "wait_for_result self request_id timeout poll_interval w =
     (let start = now w in wait_loop self request_id start timeout poll_interval w)"

text \<open>
  \<^verbatim>\<open>SynAuthClient.execute_api_call\<close>, lines 256 to 343. \<open>vault_payload\<close> is the dict of
  step 1; \<open>poll_loop\<close> is the \<^verbatim>\<open>while\<close> loop of step 2, which leaves by \<^verbatim>\<open>break\<close> or
  when the time is up and makes no further request; \<open>execute_api_call_wait\<close> is step 2
  and \<open>execute_api_call_finish\<close> lines 333 to 343.
\<close>

definition vault_payload ::
  "string \<Rightarrow> string \<Rightarrow> string \<Rightarrow> (string \<times> json) list option \<Rightarrow> string option \<Rightarrow> string option \<Rightarrow> json" where
  "vault_payload service_name method url headers body description =
     JObj
       [(''action_type'', JStr ''data_access''),
        (''title'', JStr (case description of
                           Some d \<Rightarrow> if d \<noteq> [] then d else ''API call: '' @ method @ '' '' @ url
                         | None \<Rightarrow> ''API call: '' @ method @ '' '' @ url)),
        (''description'', JStr (''Service: '' @ service_name @ '' | '' @ method @ '' '' @ url)),
        (''risk_level'', JStr ''medium''),
        (''metadata'', JObj
           [(''vault_execute'', JBool True),
            (''service_name'', JStr service_name),
            (''method'', JStr method),
            (''url'', JStr url),
            (''headers'', JObj (case headers of Some h \<Rightarrow> if h \<noteq> [] then h else [] | None \<Rightarrow> [])),
            (''body'', (case body of Some b \<Rightarrow> JStr b | None \<Rightarrow> JNull))])]"

function poll_loop :: "client \<Rightarrow> json \<Rightarrow> rat \<Rightarrow> rat \<Rightarrow> rat \<Rightarrow> json \<Rightarrow> world \<Rightarrow> (error + json) \<times> world" where
  "poll_loop self request_id start timeout poll_interval result w =
     (if now w - start < timeout then
        (case get_status self request_id w of
           (Inl e, w1) \<Rightarrow> (Inl e, w1)
         | (Inr result', w1) \<Rightarrow>
             (case subscript result' ''status'' of
                Inl e \<Rightarrow> (Inl e, w1)
              | Inr s \<Rightarrow>
                  if s \<noteq> JStr ''pending'' then (Inr result', w1)
                  else (case sleep poll_interval w1 of
                          (Inl e, w2) \<Rightarrow> (Inl e, w2)
                        | (Inr _, w2) \<Rightarrow>
                            poll_loop self request_id start timeout poll_interval result' w2)))
      else (Inr result, w))"
  by pat_completeness auto
termination
  apply (relation "measure (\<lambda>(self, request_id, start, timeout, poll_interval, result, w). length (script w))")
   apply simp
  apply (auto simp: get_status_def request_def sleep_def Let_def
              split: if_splits list.splits sum.splits json.splits)
  done

declare poll_loop.simps [simp del]

definition execute_api_call_wait ::
  "client \<Rightarrow> json \<Rightarrow> rat \<Rightarrow> rat \<Rightarrow> json \<Rightarrow> world \<Rightarrow> (error + json) \<times> world" where
  "execute_api_call_wait self request_id timeout poll_interval result w =
     (case dict_get result ''status'' of
        Inl e \<Rightarrow> (Inl e, w)
      | Inr st \<Rightarrow>
          if st = JStr ''pending'' then
            (let start = now w in poll_loop self request_id start timeout poll_interval result w)
          else (Inr result, w))"

definition execute_api_call_finish :: "client \<Rightarrow> json \<Rightarrow> json \<Rightarrow> world \<Rightarrow> (error + json) \<times> world" where
  "execute_api_call_finish self request_id result w =
     (case dict_get result ''status'' of
        Inl e \<Rightarrow> (Inl e, w)
      | Inr st \<Rightarrow>
          if st = JStr ''expired'' then (Inl (ActionExpiredError request_id), w)
          else if st = JStr ''denied'' then
            (case dict_get result ''deny_reason'' of
               Inl e \<Rightarrow> (Inl e, w)
             | Inr reason \<Rightarrow> (Inl (ActionDeniedError request_id reason), w))
          else if st \<noteq> JStr ''approved'' then (Inl (VaultExecutionError st request_id), w)
          else request self ''POST'' (VaultExecutePath request_id) None w)"

definition execute_api_call ::
  "client \<Rightarrow> string \<Rightarrow> string \<Rightarrow> string \<Rightarrow> (string \<times> json) list option \<Rightarrow> string option \<Rightarrow>
   string option \<Rightarrow> rat \<Rightarrow> rat \<Rightarrow> world \<Rightarrow> (error + json) \<times> world" where
  "execute_api_call self service_name method url headers body description timeout poll_interval w =
     (case request self ''POST'' ActionsPath
             (Some (vault_payload service_name method url headers body description)) w of
        (Inl e, w1) \<Rightarrow> (Inl e, w1)
      | (Inr result, w1) \<Rightarrow>
          (case dict_get result ''status'' of
             Inl e \<Rightarrow> (Inl e, w1)
           | Inr st \<Rightarrow>
               if st = JStr ''denied'' then
                 (case subscript result ''id'' of
                    Inl e \<Rightarrow> (Inl e, w1)
                  | Inr rid \<Rightarrow>
                      (case dict_get result ''deny_reason'' of
                         Inl e \<Rightarrow> (Inl e, w1)
                       | Inr reason \<Rightarrow> (Inl (ActionDeniedError rid reason), w1)))
               else
                 (case subscript result ''id'' of
                    Inl e \<Rightarrow> (Inl e, w1)
                  | Inr request_id \<Rightarrow>
                      (case execute_api_call_wait self request_id timeout poll_interval result w1 of
                         (Inl e, w2) \<Rightarrow> (Inl e, w2)
                       | (Inr result2, w2) \<Rightarrow> execute_api_call_finish self request_id result2 w2))))"

section \<open>Convenience methods\<close>

text \<open>
  The helpers of lines 347 to 404 call \<^verbatim>\<open>self.request_action(k=v, ..., **kwargs)\<close>.
  A \<open>kwargs\<close> value holds the keyword arguments of such a call: a field is \<open>None\<close> when
  the keyword is not given; the parameters that may be \<^verbatim>\<open>None\<close> in Python have an
  option inside. \<open>kw_other\<close> lists keywords \<^verbatim>\<open>request_action\<close> does not have.
\<close>

record kwargs =
  kw_action_type :: "string option"
  kw_title :: "string option"
  kw_description :: "string option option"
  kw_risk_level :: "string option"
  kw_reversible :: "bool option"
  kw_amount :: "rat option option"
  kw_currency :: "string option"
  kw_recipient :: "string option option"
  kw_metadata :: "(string \<times> json) list option option"
  kw_expires_in_seconds :: "int option"
  kw_callback_url :: "string option option"
  kw_other :: "string list"

definition no_kwargs :: kwargs where
  "no_kwargs =
     \<lparr>kw_action_type = None, kw_title = None, kw_description = None, kw_risk_level = None,
      kw_reversible = None, kw_amount = None, kw_currency = None, kw_recipient = None,
      kw_metadata = None, kw_expires_in_seconds = None, kw_callback_url = None, kw_other = []\<rparr>"

definition given_twice :: "'a option \<Rightarrow> 'a option \<Rightarrow> bool" where
  "given_twice a b = (a \<noteq> None \<and> b \<noteq> None)"

definition either :: "'a option \<Rightarrow> 'a option \<Rightarrow> 'a option" where
  "either a b = (case a of Some x \<Rightarrow> Some x | None \<Rightarrow> b)"

definition or_default :: "'a option \<Rightarrow> 'a \<Rightarrow> 'a" where
  "or_default a d = (case a of Some x \<Rightarrow> x | None \<Rightarrow> d)"

text \<open>
  The call \<^verbatim>\<open>self.request_action(<given>, **kwargs)\<close>: \<open>TypeError\<close> before anything is
  sent when a keyword comes twice, is unknown, or a required parameter is missing; the
  parameters not given take the defaults of the signature (lines 133 to 141).
\<close>

definition call_request_action :: "client \<Rightarrow> kwargs \<Rightarrow> kwargs \<Rightarrow> world \<Rightarrow> (error + json) \<times> world" where
  "call_request_action self given kwargs w =
     (if given_twice (kw_action_type given) (kw_action_type kwargs)
       \<or> given_twice (kw_title given) (kw_title kwargs)
       \<or> given_twice (kw_description given) (kw_description kwargs)
       \<or> given_twice (kw_risk_level given) (kw_risk_level kwargs)
       \<or> given_twice (kw_reversible given) (kw_reversible kwargs)
       \<or> given_twice (kw_amount given) (kw_amount kwargs)
       \<or> given_twice (kw_currency given) (kw_currency kwargs)
       \<or> given_twice (kw_recipient given) (kw_recipient kwargs)
       \<or> given_twice (kw_metadata given) (kw_metadata kwargs)
       \<or> given_twice (kw_expires_in_seconds given) (kw_expires_in_seconds kwargs)
       \<or> given_twice (kw_callback_url given) (kw_callback_url kwargs)
      then (Inl TypeError, w)
      else if kw_other given \<noteq> [] \<or> kw_other kwargs \<noteq> [] then (Inl TypeError, w)
      else
        (case (either (kw_action_type given) (kw_action_type kwargs),
               either (kw_title given) (kw_title kwargs)) of
           (Some action_type, Some title) \<Rightarrow>
             request_action self action_type title
               (or_default (either (kw_description given) (kw_description kwargs)) None)
               (or_default (either (kw_risk_level given) (kw_risk_level kwargs)) ''medium'')
               (or_default (either (kw_reversible given) (kw_reversible kwargs)) True)
               (or_default (either (kw_amount given) (kw_amount kwargs)) None)
               (or_default (either (kw_currency given) (kw_currency kwargs)) ''USD'')
               (or_default (either (kw_recipient given) (kw_recipient kwargs)) None)
               (or_default (either (kw_metadata given) (kw_metadata kwargs)) None)
               (or_default (either (kw_expires_in_seconds given) (kw_expires_in_seconds kwargs)) 300)
               (or_default (either (kw_callback_url given) (kw_callback_url kwargs)) None)
               w
         | _ \<Rightarrow> (Inl TypeError, w)))"

text \<open>\<^verbatim>\<open>kwargs.pop("risk_level", d)\<close>: the value, and \<open>kwargs\<close> without the key.\<close>

definition pop_risk_level :: "kwargs \<Rightarrow> string \<Rightarrow> string \<times> kwargs" where
  "pop_risk_level kwargs d = (or_default (kw_risk_level kwargs) d, kwargs\<lparr>kw_risk_level := None\<rparr>)"

definition request_email ::
  "client \<Rightarrow> string \<Rightarrow> string \<Rightarrow> string option \<Rightarrow> kwargs \<Rightarrow> world \<Rightarrow> (error + json) \<times> world" where
  "request_email self recipient subject preview kwargs w =
     (case pop_risk_level kwargs ''low'' of
        (risk_level, kwargs') \<Rightarrow>
          call_request_action self
            (no_kwargs\<lparr>kw_action_type := Some ''communication'',
                       kw_title := Some (''Send email: '' @ subject),
                       kw_description := Some preview,
                       kw_recipient := Some (Some recipient),
                       kw_risk_level := Some risk_level\<rparr>) kwargs' w)"

definition request_purchase ::
  "client \<Rightarrow> rat \<Rightarrow> string \<Rightarrow> string option \<Rightarrow> kwargs \<Rightarrow> world \<Rightarrow> (error + json) \<times> world" where
  "request_purchase self amount merchant description kwargs w =
     (case pop_risk_level kwargs ''medium'' of
        (risk_level, kwargs') \<Rightarrow>
          call_request_action self
            (no_kwargs\<lparr>kw_action_type := Some ''purchase'',
                       kw_title := Some (''Purchase from '' @ merchant),
                       kw_description := Some description,
                       kw_amount := Some (Some amount),
                       kw_recipient := Some (Some merchant),
                       kw_risk_level := Some risk_level\<rparr>) kwargs' w)"

definition request_booking ::
  "client \<Rightarrow> string \<Rightarrow> string option \<Rightarrow> rat option \<Rightarrow> kwargs \<Rightarrow> world \<Rightarrow> (error + json) \<times> world" where
  "request_booking self title description amount kwargs w =
     (case pop_risk_level kwargs ''low'' of
        (risk_level, kwargs') \<Rightarrow>
          call_request_action self
            (no_kwargs\<lparr>kw_action_type := Some ''scheduling'',
                       kw_title := Some title,
                       kw_description := Some description,
                       kw_amount := Some amount,
                       kw_risk_level := Some risk_level\<rparr>) kwargs' w)"

definition request_post ::
  "client \<Rightarrow> string \<Rightarrow> string \<Rightarrow> kwargs \<Rightarrow> world \<Rightarrow> (error + json) \<times> world" where
  "request_post self platform content_preview kwargs w =
     (case pop_risk_level kwargs ''medium'' of
        (risk_level, kwargs') \<Rightarrow>
          call_request_action self
            (no_kwargs\<lparr>kw_action_type := Some ''social'',
                       kw_title := Some (''Post to '' @ platform),
                       kw_description := Some (Some content_preview),
                       kw_risk_level := Some risk_level\<rparr>) kwargs' w)"

definition request_data_access ::
  "client \<Rightarrow> string \<Rightarrow> string \<Rightarrow> kwargs \<Rightarrow> world \<Rightarrow> (error + json) \<times> world" where
  "request_data_access self resource reason kwargs w =
     (case pop_risk_level kwargs ''high'' of
        (risk_level, kwargs') \<Rightarrow>
          call_request_action self
            (no_kwargs\<lparr>kw_action_type := Some ''data_access'',
                       kw_title := Some (''Access: '' @ resource),
                       kw_description := Some (Some reason),
                       kw_risk_level := Some risk_level\<rparr>) kwargs' w)"

definition request_contract ::
  "client \<Rightarrow> string \<Rightarrow> string \<Rightarrow> kwargs \<Rightarrow> world \<Rightarrow> (error + json) \<times> world" where
  "request_contract self title description kwargs w =
     (case pop_risk_level kwargs ''critical'' of
        (risk_level, kwargs') \<Rightarrow>
          call_request_action self
            (no_kwargs\<lparr>kw_action_type := Some ''legal'',
                       kw_title := Some title,
                       kw_description := Some (Some description),
                       kw_reversible := Some False,
                       kw_risk_level := Some risk_level\<rparr>) kwargs' w)"

section \<open>SynPayClient\<close>

text \<open>\<^verbatim>\<open>src/synauth/pay.py\<close>: the payment client holds a \<open>SynAuthClient\<close> in \<^verbatim>\<open>_auth\<close>.\<close>

record pay_client =
  auth :: client

definition SynPayClient :: "string \<Rightarrow> string \<Rightarrow> pay_client" where
  "SynPayClient key url = \<lparr>auth = SynAuthClient key url\<rparr>"

definition request_payment ::
  "pay_client \<Rightarrow> rat \<Rightarrow> string \<Rightarrow> string \<Rightarrow> string \<Rightarrow> (string \<times> json) list option \<Rightarrow>
   world \<Rightarrow> (error + json) \<times> world" where
  "request_payment self amount merchant description currency metadata w =
     request_purchase (auth self) amount merchant (Some description)
       (no_kwargs\<lparr>kw_currency := Some currency, kw_metadata := Some metadata\<rparr>) w"

definition pay_get_status :: "pay_client \<Rightarrow> json \<Rightarrow> world \<Rightarrow> (error + json) \<times> world" where
  "pay_get_status self request_id w = get_status (auth self) request_id w"

definition pay_wait_for_result ::
  "pay_client \<Rightarrow> json \<Rightarrow> rat \<Rightarrow> rat \<Rightarrow> world \<Rightarrow> (error + json) \<times> world" where
  "pay_wait_for_result self request_id timeout poll_interval w =
     wait_for_result (auth self) request_id timeout poll_interval w"

section \<open>Content fingerprint\<close>

text \<open>
  \<^verbatim>\<open>compute_content_hash\<close> is imported from the package by
  \<^verbatim>\<open>examples/agent_example.py\<close> (lines 37 to 46) and called there on a dict of
  parameters (line 206), but it is defined in no file of the source tree. The three
  definitions below follow sections 3 and 4.4 of the specification.
\<close>

text \<open>
  Modelled from the spec: the canonical key order of \<^verbatim>\<open>compute_content_hash\<close>
  ("canonicalize key order before hashing", "stable key ordering"): the pairs of the
  mapping sorted by key.
\<close>

definition canonical_order :: "(string \<times> json) list \<Rightarrow> (string \<times> json) list" where
  "canonical_order params = sort_key fst params"

text \<open>
  Modelled from the spec: \<^verbatim>\<open>compute_content_hash\<close>, "a deterministic digest computed
  over an ordered serialization of an action's exact parameters". The specification names
  neither the digest nor the serialization: both are parameters.
\<close>

definition compute_content_hash ::
  "(string \<Rightarrow> string) \<Rightarrow> ((string \<times> json) list \<Rightarrow> string) \<Rightarrow> (string \<times> json) list \<Rightarrow> string" where
  "compute_content_hash digest serialize params = digest (serialize (canonical_order params))"

text \<open>
  Modelled from the spec: the fingerprint the backend reports (\<^verbatim>\<open>content_hash\<close> of the
  create response), the same digest over the same canonical serialization, computed by
  the backend over the mapping as it received it.
\<close>

definition backend_content_hash ::
  "(string \<Rightarrow> string) \<Rightarrow> ((string \<times> json) list \<Rightarrow> string) \<Rightarrow> (string \<times> json) list \<Rightarrow> string" where
  "backend_content_hash digest serialize received = digest (serialize (canonical_order received))"

section \<open>Reading a response\<close>

text \<open>
  Words for the statements below. \<open>fetched resp\<close> is the value \<open>request\<close> returns for
  the response \<open>resp\<close>, \<open>None\<close> when it raises; \<open>status_of j\<close> is \<^verbatim>\<open>j["status"]\<close>,
  \<open>None\<close> when that raises; a pending reply is a response whose snapshot has the status
  \<^verbatim>\<open>"pending"\<close>; \<open>status_call\<close> is the request \<open>get_status\<close> sends.
\<close>

definition fetched :: "response \<Rightarrow> json option" where
  "fetched resp =
     (if status_code resp \<noteq> 429 \<and> ok resp
      then (case json_body resp of Inr j \<Rightarrow> Some j | Inl e \<Rightarrow> None)
      else None)"

definition status_of :: "json \<Rightarrow> json option" where
  "status_of j = (case subscript j ''status'' of Inr s \<Rightarrow> Some s | Inl e \<Rightarrow> None)"

definition pending_reply :: "response \<Rightarrow> bool" where
  "pending_reply resp =
     (case fetched resp of Some j \<Rightarrow> status_of j = Some (JStr ''pending'') | None \<Rightarrow> False)"

definition status_call :: "client \<Rightarrow> json \<Rightarrow> http_call" where
  "status_call self request_id = mk_call self ''GET'' (ActionPath request_id) None"

section \<open>Keywords a helper accepts\<close>

text \<open>
  A helper passes some keywords to \<open>request_action\<close> itself (lines 347 to 404); its
  \<^verbatim>\<open>**kwargs\<close> may hold none of these, and no keyword \<open>request_action\<close> does not have.
  \<^verbatim>\<open>risk_level\<close> is taken out of \<^verbatim>\<open>kwargs\<close> by \<^verbatim>\<open>pop\<close> and never clashes.
\<close>

definition email_keywords_ok :: "kwargs \<Rightarrow> bool" where
  "email_keywords_ok kwargs =
     (kw_action_type kwargs = None \<and> kw_title kwargs = None \<and> kw_description kwargs = None
      \<and> kw_recipient kwargs = None \<and> kw_other kwargs = [])"

definition purchase_keywords_ok :: "kwargs \<Rightarrow> bool" where
  "purchase_keywords_ok kwargs =
     (kw_action_type kwargs = None \<and> kw_title kwargs = None \<and> kw_description kwargs = None
      \<and> kw_amount kwargs = None \<and> kw_recipient kwargs = None \<and> kw_other kwargs = [])"

definition booking_keywords_ok :: "kwargs \<Rightarrow> bool" where
  "booking_keywords_ok kwargs =
     (kw_action_type kwargs = None \<and> kw_title kwargs = None \<and> kw_description kwargs = None
      \<and> kw_amount kwargs = None \<and> kw_other kwargs = [])"

definition post_keywords_ok :: "kwargs \<Rightarrow> bool" where
  "post_keywords_ok kwargs =
     (kw_action_type kwargs = None \<and> kw_title kwargs = None \<and> kw_description kwargs = None
      \<and> kw_other kwargs = [])"

definition data_access_keywords_ok :: "kwargs \<Rightarrow> bool" where
  "data_access_keywords_ok kwargs =
     (kw_action_type kwargs = None \<and> kw_title kwargs = None \<and> kw_description kwargs = None
      \<and> kw_other kwargs = [])"

definition contract_keywords_ok :: "kwargs \<Rightarrow> bool" where
  "contract_keywords_ok kwargs =
     (kw_action_type kwargs = None \<and> kw_title kwargs = None \<and> kw_description kwargs = None
      \<and> kw_reversible kwargs = None \<and> kw_other kwargs = [])"

section \<open>Inputs for the evaluations\<close>

text \<open>
  A client, a world that starts at time 0 with the given responses to come, a 200
  response with a JSON body that took \<open>l\<close> seconds, and a status snapshot.
\<close>

definition c0 :: client where
  "c0 = SynAuthClient ''aa_demo'' default_base_url"

definition w_of :: "response list \<Rightarrow> world" where
  "w_of rs = \<lparr>now = 0, script = rs, calls = []\<rparr>"

definition reply :: "rat \<Rightarrow> json \<Rightarrow> response" where
  "reply l j = \<lparr>status_code = 200, resp_text = [], json_body = Inr j, elapsed = l\<rparr>"

definition snapshot :: "string \<Rightarrow> json" where
  "snapshot s = JObj [(''id'', JStr ''req_1''), (''status'', JStr s)]"

definition kw_buy :: kwargs where
  "kw_buy = no_kwargs\<lparr>kw_action_type := Some ''purchase'', kw_title := Some ''Buy'',
                       kw_amount := Some (Some 10)\<rparr>"

definition kw_high :: kwargs where
  "kw_high = no_kwargs\<lparr>kw_risk_level := Some ''high''\<rparr>"

definition resp_304 :: response where
  "resp_304 = \<lparr>status_code = 304, resp_text = [], json_body = Inl ValueError, elapsed = 0\<rparr>"

definition resp_300 :: response where
  "resp_300 = \<lparr>status_code = 300, resp_text = ''{\"detail\":\"multiple choices\"}'',
               json_body = Inr (JObj [(''detail'', JStr ''multiple choices'')]), elapsed = 0\<rparr>"

definition resp_403 :: response where
  "resp_403 = \<lparr>status_code = 403, resp_text = ''{\"detail\":\"forbidden\"}'',
               json_body = Inr (JObj [(''detail'', JStr ''forbidden'')]), elapsed = 0\<rparr>"

definition resp_500 :: response where
  "resp_500 = \<lparr>status_code = 500, resp_text = ''Internal Server Error'',
               json_body = Inl ValueError, elapsed = 0\<rparr>"

definition resp_429 :: response where
  "resp_429 = \<lparr>status_code = 429, resp_text = ''slow down'', json_body = Inl ValueError,
               elapsed = 0\<rparr>"

definition denied_snapshot :: json where
  "denied_snapshot = JObj [(''id'', JStr ''req_1''), (''status'', JStr ''denied''),
                           (''deny_reason'', JStr ''over limit'')]"

definition vault_response :: json where
  "vault_response = JObj [(''status_code'', JNum 200), (''body'', JStr ''{}'')]"

definition openai_payload :: json where
  "openai_payload = vault_payload ''openai'' ''POST'' ''https://api.openai.com/v1/models''
                      None None None"

definition trade_params :: "(string \<times> json) list" where
  "trade_params = [(''ticker'', JStr ''NVDA''), (''side'', JStr ''buy''), (''quantity'', JNum 10)]"

definition trade_params_reordered :: "(string \<times> json) list" where
  "trade_params_reordered =
     [(''quantity'', JNum 10), (''ticker'', JStr ''NVDA''), (''side'', JStr ''buy'')]"

definition keys_text :: "(string \<times> json) list \<Rightarrow> string" where
  "keys_text kvs = concat (map (\<lambda>(k, v). k @ '';'') kvs)"

section \<open>The payload of \<open>request_action\<close>\<close>

lemma payload_fields:
  "request_action_payload action_type title description risk_level reversible amount currency
       recipient metadata expires_in_seconds callback_url =
     [(''action_type'', JStr action_type), (''title'', JStr title),
      (''risk_level'', JStr risk_level), (''reversible'', JBool reversible),
      (''expires_in_seconds'', JNum (of_int expires_in_seconds))]
     @ (case description of Some d \<Rightarrow> if d \<noteq> [] then [(''description'', JStr d)] else [] | None \<Rightarrow> [])
     @ (case amount of Some a \<Rightarrow> [(''amount'', JNum a), (''currency'', JStr currency)] | None \<Rightarrow> [])
     @ (case recipient of Some r \<Rightarrow> if r \<noteq> [] then [(''recipient'', JStr r)] else [] | None \<Rightarrow> [])
     @ (case metadata of Some m \<Rightarrow> if m \<noteq> [] then [(''metadata'', JObj m)] else [] | None \<Rightarrow> [])
     @ (case callback_url of Some c \<Rightarrow> if c \<noteq> [] then [(''callback_url'', JStr c)] else [] | None \<Rightarrow> [])"
  by (simp add: request_action_payload_def Let_def split: option.splits)

lemma payload_required:
  "map_of (request_action_payload action_type title description risk_level reversible amount
     currency recipient metadata expires_in_seconds callback_url) ''action_type''
     = Some (JStr action_type)"
  "map_of (request_action_payload action_type title description risk_level reversible amount
     currency recipient metadata expires_in_seconds callback_url) ''title''
     = Some (JStr title)"
  "map_of (request_action_payload action_type title description risk_level reversible amount
     currency recipient metadata expires_in_seconds callback_url) ''risk_level''
     = Some (JStr risk_level)"
  "map_of (request_action_payload action_type title description risk_level reversible amount
     currency recipient metadata expires_in_seconds callback_url) ''reversible''
     = Some (JBool reversible)"
  "map_of (request_action_payload action_type title description risk_level reversible amount
     currency recipient metadata expires_in_seconds callback_url) ''expires_in_seconds''
     = Some (JNum (of_int expires_in_seconds))"
  by (simp_all add: payload_fields map_add_def split: option.splits)

lemma payload_optional:
  "map_of (request_action_payload action_type title description risk_level reversible amount
     currency recipient metadata expires_in_seconds callback_url) ''description''
     = (case description of Some d \<Rightarrow> if d \<noteq> [] then Some (JStr d) else None | None \<Rightarrow> None)"
  "map_of (request_action_payload action_type title description risk_level reversible amount
     currency recipient metadata expires_in_seconds callback_url) ''amount''
     = (case amount of Some a \<Rightarrow> Some (JNum a) | None \<Rightarrow> None)"
  "map_of (request_action_payload action_type title description risk_level reversible amount
     currency recipient metadata expires_in_seconds callback_url) ''currency''
     = (case amount of Some a \<Rightarrow> Some (JStr currency) | None \<Rightarrow> None)"
  "map_of (request_action_payload action_type title description risk_level reversible amount
     currency recipient metadata expires_in_seconds callback_url) ''recipient''
     = (case recipient of Some r \<Rightarrow> if r \<noteq> [] then Some (JStr r) else None | None \<Rightarrow> None)"
  "map_of (request_action_payload action_type title description risk_level reversible amount
     currency recipient metadata expires_in_seconds callback_url) ''metadata''
     = (case metadata of Some m \<Rightarrow> if m \<noteq> [] then Some (JObj m) else None | None \<Rightarrow> None)"
  "map_of (request_action_payload action_type title description risk_level reversible amount
     currency recipient metadata expires_in_seconds callback_url) ''callback_url''
     = (case callback_url of Some c \<Rightarrow> if c \<noteq> [] then Some (JStr c) else None | None \<Rightarrow> None)"
  by (simp_all add: payload_fields map_add_def split: option.splits)

lemma call_request_action_plain:
  assumes "kw_action_type kw = Some action_type" and "kw_title kw = Some title"
    and "kw_other kw = []"
  shows "call_request_action self no_kwargs kw w =
     request_action self action_type title
       (or_default (kw_description kw) None) (or_default (kw_risk_level kw) ''medium'')
       (or_default (kw_reversible kw) True) (or_default (kw_amount kw) None)
       (or_default (kw_currency kw) ''USD'') (or_default (kw_recipient kw) None)
       (or_default (kw_metadata kw) None) (or_default (kw_expires_in_seconds kw) 300)
       (or_default (kw_callback_url kw) None) w"
  using assms by (simp add: call_request_action_def no_kwargs_def given_twice_def either_def)

text \<open>
  C6, as amended. In a call of \<open>request_action\<close> with keyword arguments \<open>kw\<close>, each of
  description, amount, recipient, metadata and callback_url that is not supplied (or is
  supplied as \<^verbatim>\<open>None\<close>) is absent from the payload sent; currency is absent when the
  amount is not supplied, and is sent whenever the amount is, with the default
  \<^verbatim>\<open>"USD"\<close> when the caller gave none; action_type, title, risk_level, reversible and
  expires_in_seconds are in every payload.
\<close>

theorem request_action_omits_unsupplied:
  assumes "kw_action_type kw = Some action_type" and "kw_title kw = Some title"
    and "kw_other kw = []"
  shows "\<exists>P. call_request_action self no_kwargs kw w
                = request self ''POST'' ActionsPath (Some (JObj P)) w
     \<and> (or_default (kw_description kw) None = None \<longrightarrow> map_of P ''description'' = None)
     \<and> (or_default (kw_amount kw) None = None \<longrightarrow>
           map_of P ''amount'' = None \<and> map_of P ''currency'' = None)
     \<and> (or_default (kw_amount kw) None \<noteq> None \<longrightarrow>
           map_of P ''currency'' = Some (JStr (or_default (kw_currency kw) ''USD'')))
     \<and> (or_default (kw_recipient kw) None = None \<longrightarrow> map_of P ''recipient'' = None)
     \<and> (or_default (kw_metadata kw) None = None \<longrightarrow> map_of P ''metadata'' = None)
     \<and> (or_default (kw_callback_url kw) None = None \<longrightarrow> map_of P ''callback_url'' = None)
     \<and> map_of P ''action_type'' = Some (JStr action_type)
     \<and> map_of P ''title'' = Some (JStr title)
     \<and> map_of P ''risk_level'' = Some (JStr (or_default (kw_risk_level kw) ''medium''))
     \<and> map_of P ''reversible'' = Some (JBool (or_default (kw_reversible kw) True))
     \<and> map_of P ''expires_in_seconds''
          = Some (JNum (of_int (or_default (kw_expires_in_seconds kw) 300)))"
proof -
  let ?P = "request_action_payload action_type title
       (or_default (kw_description kw) None) (or_default (kw_risk_level kw) ''medium'')
       (or_default (kw_reversible kw) True) (or_default (kw_amount kw) None)
       (or_default (kw_currency kw) ''USD'') (or_default (kw_recipient kw) None)
       (or_default (kw_metadata kw) None) (or_default (kw_expires_in_seconds kw) 300)
       (or_default (kw_callback_url kw) None)"
  have "call_request_action self no_kwargs kw w
          = request self ''POST'' ActionsPath (Some (JObj ?P)) w"
    using assms by (simp add: call_request_action_plain request_action_def)
  moreover have "or_default (kw_amount kw) None \<noteq> None \<longrightarrow>
           map_of ?P ''currency'' = Some (JStr (or_default (kw_currency kw) ''USD''))"
    by (auto simp: payload_optional)
  ultimately show ?thesis
    by (intro exI [of _ ?P]) (simp add: payload_required payload_optional)
qed

theorem request_action_omits_unsupplied_witness:
  "\<exists>P. call_request_action c0 no_kwargs kw_buy (w_of [])
          = request c0 ''POST'' ActionsPath (Some (JObj P)) (w_of [])
     \<and> map_of P ''description'' = None \<and> map_of P ''recipient'' = None
     \<and> map_of P ''currency'' = Some (JStr ''USD'')
     \<and> map_of P ''title'' = Some (JStr ''Buy'')"
  using request_action_omits_unsupplied [of kw_buy "''purchase''" "''Buy''" c0 "w_of []"]
  by (simp add: kw_buy_def no_kwargs_def or_default_def) blast

text \<open>
  C6 as stated fails for currency: the caller of \<open>kw_buy\<close> supplies an amount and no
  currency, and the payload sent carries \<^verbatim>\<open>"currency": "USD"\<close>.
\<close>

theorem request_action_currency_counterexample:
  "kw_currency kw_buy = None
   \<and> map call_json (calls (snd (call_request_action c0 no_kwargs kw_buy
        (w_of [reply 0 (snapshot ''pending'')]))))
     = [Some (JObj [(''action_type'', JStr ''purchase''), (''title'', JStr ''Buy''),
                    (''risk_level'', JStr ''medium''), (''reversible'', JBool True),
                    (''expires_in_seconds'', JNum 300), (''amount'', JNum 10),
                    (''currency'', JStr ''USD'')])]"
  by (simp add: call_request_action_def kw_buy_def no_kwargs_def given_twice_def either_def
      or_default_def request_action_def request_action_payload_def request_def w_of_def
      reply_def ok_def mk_call_def)

text \<open>
  C10. The payload \<open>P\<close> that \<open>request_action\<close> sends holds description, recipient,
  callback_url and metadata exactly when they are given and not empty: an empty string
  or mapping is left out like \<^verbatim>\<open>None\<close>, and the request is then the same as for
  \<^verbatim>\<open>None\<close>. Currency is in \<open>P\<close> exactly when the amount is not \<^verbatim>\<open>None\<close> (an amount
  of 0 counts), with the value of the currency parameter, which is \<^verbatim>\<open>"USD"\<close> when the
  caller gives none.
\<close>

theorem request_action_truthiness:
  "(\<exists>P. request_action self action_type title description risk_level reversible amount
          currency recipient metadata expires_in_seconds callback_url w
        = request self ''POST'' ActionsPath (Some (JObj P)) w
      \<and> map_of P ''description''
          = (case description of Some d \<Rightarrow> if d = [] then None else Some (JStr d) | None \<Rightarrow> None)
      \<and> map_of P ''recipient''
          = (case recipient of Some r \<Rightarrow> if r = [] then None else Some (JStr r) | None \<Rightarrow> None)
      \<and> map_of P ''metadata''
          = (case metadata of Some m \<Rightarrow> if m = [] then None else Some (JObj m) | None \<Rightarrow> None)
      \<and> map_of P ''callback_url''
          = (case callback_url of Some c \<Rightarrow> if c = [] then None else Some (JStr c) | None \<Rightarrow> None)
      \<and> map_of P ''amount'' = (case amount of Some a \<Rightarrow> Some (JNum a) | None \<Rightarrow> None)
      \<and> map_of P ''currency''
          = (case amount of Some a \<Rightarrow> Some (JStr currency) | None \<Rightarrow> None)
      \<and> (map_of P ''currency'' \<noteq> None) = (amount \<noteq> None))
   \<and> request_action self action_type title (Some []) risk_level reversible amount currency
       recipient metadata expires_in_seconds callback_url w
     = request_action self action_type title None risk_level reversible amount currency
         recipient metadata expires_in_seconds callback_url w
   \<and> request_action self action_type title description risk_level reversible amount currency
       (Some []) metadata expires_in_seconds callback_url w
     = request_action self action_type title description risk_level reversible amount currency
         None metadata expires_in_seconds callback_url w
   \<and> request_action self action_type title description risk_level reversible amount currency
       recipient (Some []) expires_in_seconds callback_url w
     = request_action self action_type title description risk_level reversible amount currency
         recipient None expires_in_seconds callback_url w
   \<and> request_action self action_type title description risk_level reversible amount currency
       recipient metadata expires_in_seconds (Some []) w
     = request_action self action_type title description risk_level reversible amount currency
         recipient metadata expires_in_seconds None w
   \<and> (\<exists>P. call_request_action self no_kwargs
          (no_kwargs\<lparr>kw_action_type := Some action_type, kw_title := Some title,
                     kw_amount := Some (Some a)\<rparr>) w
        = request self ''POST'' ActionsPath (Some (JObj P)) w
      \<and> map_of P ''amount'' = Some (JNum a)
      \<and> map_of P ''currency'' = Some (JStr ''USD''))"
proof -
  let ?P = "request_action_payload action_type title description risk_level reversible amount
              currency recipient metadata expires_in_seconds callback_url"
  have sent: "request_action self action_type title description risk_level reversible amount
          currency recipient metadata expires_in_seconds callback_url w
        = request self ''POST'' ActionsPath (Some (JObj ?P)) w"
    by (simp add: request_action_def)
  have cur: "(map_of ?P ''currency'' \<noteq> None) = (amount \<noteq> None)"
    by (simp add: payload_optional split: option.splits)
  have first: "\<exists>P. request_action self action_type title description risk_level reversible
          amount currency recipient metadata expires_in_seconds callback_url w
        = request self ''POST'' ActionsPath (Some (JObj P)) w
      \<and> map_of P ''description''
          = (case description of Some d \<Rightarrow> if d = [] then None else Some (JStr d) | None \<Rightarrow> None)
      \<and> map_of P ''recipient''
          = (case recipient of Some r \<Rightarrow> if r = [] then None else Some (JStr r) | None \<Rightarrow> None)
      \<and> map_of P ''metadata''
          = (case metadata of Some m \<Rightarrow> if m = [] then None else Some (JObj m) | None \<Rightarrow> None)
      \<and> map_of P ''callback_url''
          = (case callback_url of Some c \<Rightarrow> if c = [] then None else Some (JStr c) | None \<Rightarrow> None)
      \<and> map_of P ''amount'' = (case amount of Some a \<Rightarrow> Some (JNum a) | None \<Rightarrow> None)
      \<and> map_of P ''currency''
          = (case amount of Some a \<Rightarrow> Some (JStr currency) | None \<Rightarrow> None)
      \<and> (map_of P ''currency'' \<noteq> None) = (amount \<noteq> None)"
    using sent cur
    by (intro exI [of _ ?P]) (simp add: payload_optional split: option.splits)
  let ?Q = "request_action_payload action_type title None ''medium'' True (Some a) ''USD''
              None None 300 None"
  have last: "\<exists>P. call_request_action self no_kwargs
          (no_kwargs\<lparr>kw_action_type := Some action_type, kw_title := Some title,
                     kw_amount := Some (Some a)\<rparr>) w
        = request self ''POST'' ActionsPath (Some (JObj P)) w
      \<and> map_of P ''amount'' = Some (JNum a)
      \<and> map_of P ''currency'' = Some (JStr ''USD'')"
    by (intro exI [of _ ?Q])
       (simp add: call_request_action_def no_kwargs_def given_twice_def either_def
          or_default_def request_action_def payload_optional)
  have same: "request_action self action_type title (Some []) risk_level reversible amount
         currency recipient metadata expires_in_seconds callback_url w
       = request_action self action_type title None risk_level reversible amount currency
           recipient metadata expires_in_seconds callback_url w"
      "request_action self action_type title description risk_level reversible amount currency
         (Some []) metadata expires_in_seconds callback_url w
       = request_action self action_type title description risk_level reversible amount
           currency None metadata expires_in_seconds callback_url w"
      "request_action self action_type title description risk_level reversible amount currency
         recipient (Some []) expires_in_seconds callback_url w
       = request_action self action_type title description risk_level reversible amount
           currency recipient None expires_in_seconds callback_url w"
      "request_action self action_type title description risk_level reversible amount currency
         recipient metadata expires_in_seconds (Some []) w
       = request_action self action_type title description risk_level reversible amount
           currency recipient metadata expires_in_seconds None w"
    by (simp_all add: request_action_def payload_fields)
  show ?thesis
    using first last same by (intro conjI)
qed

theorem request_action_truthiness_witness:
  "map call_json (calls (snd (request_action c0 ''communication'' ''Hello'' (Some [])
       ''low'' True (Some 0) ''USD'' (Some []) (Some []) 300 (Some []) (w_of []))))
     = [Some (JObj [(''action_type'', JStr ''communication''), (''title'', JStr ''Hello''),
                    (''risk_level'', JStr ''low''), (''reversible'', JBool True),
                    (''expires_in_seconds'', JNum 300), (''amount'', JNum 0),
                    (''currency'', JStr ''USD'')])]"
  using request_action_truthiness [where self = c0 and action_type = "''communication''"
      and title = "''Hello''" and description = "Some []" and risk_level = "''low''"
      and reversible = True and amount = "Some 0" and currency = "''USD''"
      and recipient = "Some []" and metadata = "Some []" and expires_in_seconds = 300
      and callback_url = "Some []" and w = "w_of []" and a = 0]
  by (simp add: request_action_def request_action_payload_def request_def w_of_def mk_call_def)

section \<open>The polling loops\<close>

lemma world_eq_iff:
  "(a :: world) = b \<longleftrightarrow> now a = now b \<and> script a = script b \<and> calls a = calls b"
  by (cases a, cases b) auto

lemma wait_loop_cong:
  assumes "now a = now b" and "script a = script b" and "calls a = calls b"
  shows "wait_loop self request_id start timeout poll_interval a =
         wait_loop self request_id start timeout poll_interval b"
proof -
  have "a = b" using assms by (simp add: world_eq_iff)
  then show ?thesis by simp
qed

lemma poll_loop_cong:
  assumes "now a = now b" and "script a = script b" and "calls a = calls b"
  shows "poll_loop self request_id start timeout poll_interval result a =
         poll_loop self request_id start timeout poll_interval result b"
proof -
  have "a = b" using assms by (simp add: world_eq_iff)
  then show ?thesis by simp
qed

lemma request_fetched:
  assumes "script w = resp # rest" and "fetched resp = Some j"
  shows "request self method path body w =
           (Inr j, w\<lparr>now := now w + elapsed resp, script := rest,
                     calls := calls w @ [mk_call self method path body]\<rparr>)"
  using assms by (simp add: request_def fetched_def Let_def split: if_splits sum.splits)

lemma get_status_fetched:
  assumes "script w = resp # rest" and "fetched resp = Some j"
  shows "get_status self request_id w =
           (Inr j, w\<lparr>now := now w + elapsed resp, script := rest,
                     calls := calls w @ [status_call self request_id]\<rparr>)"
  using assms by (simp add: get_status_def status_call_def request_fetched)

lemma subscript_status_of: "subscript j ''status'' = Inr s \<longleftrightarrow> status_of j = Some s"
  by (simp add: status_of_def split: sum.splits)

lemma wait_loop_timeout:
  "\<not> now w - start < timeout \<Longrightarrow>
   wait_loop self request_id start timeout poll_interval w = get_status self request_id w"
  by (subst wait_loop.simps) simp

lemma wait_loop_terminal:
  assumes "now w - start < timeout" and "script w = resp # rest" and "fetched resp = Some j"
    and "status_of j = Some s" and "s \<noteq> JStr ''pending''"
  shows "wait_loop self request_id start timeout poll_interval w =
           (Inr j, w\<lparr>now := now w + elapsed resp, script := rest,
                     calls := calls w @ [status_call self request_id]\<rparr>)"
  using assms
  by (subst wait_loop.simps) (simp add: get_status_fetched subscript_status_of [symmetric])

lemma wait_loop_pending:
  assumes "now w - start < timeout" and "script w = resp # rest" and "pending_reply resp"
    and "0 \<le> poll_interval" and "poll_interval \<le> sleep_max"
  shows "wait_loop self request_id start timeout poll_interval w =
           wait_loop self request_id start timeout poll_interval
             (w\<lparr>now := now w + elapsed resp + poll_interval, script := rest,
                calls := calls w @ [status_call self request_id]\<rparr>)"
proof -
  obtain j where j: "fetched resp = Some j" "subscript j ''status'' = Inr (JStr ''pending'')"
    using assms(3) by (auto simp: pending_reply_def subscript_status_of split: option.splits)
  show ?thesis
    using assms j
    by (subst wait_loop.simps) (simp add: get_status_fetched sleep_def, rule wait_loop_cong, simp_all)
qed

lemma poll_loop_timeout:
  "\<not> now w - start < timeout \<Longrightarrow>
   poll_loop self request_id start timeout poll_interval result w = (Inr result, w)"
  by (subst poll_loop.simps) simp

lemma poll_loop_terminal:
  assumes "now w - start < timeout" and "script w = resp # rest" and "fetched resp = Some j"
    and "status_of j = Some s" and "s \<noteq> JStr ''pending''"
  shows "poll_loop self request_id start timeout poll_interval result w =
           (Inr j, w\<lparr>now := now w + elapsed resp, script := rest,
                     calls := calls w @ [status_call self request_id]\<rparr>)"
  using assms
  by (subst poll_loop.simps) (simp add: get_status_fetched subscript_status_of [symmetric])

lemma poll_loop_pending:
  assumes "now w - start < timeout" and "script w = resp # rest" and "fetched resp = Some j"
    and "status_of j = Some (JStr ''pending'')" and "0 \<le> poll_interval"
    and "poll_interval \<le> sleep_max"
  shows "poll_loop self request_id start timeout poll_interval result w =
           poll_loop self request_id start timeout poll_interval j
             (w\<lparr>now := now w + elapsed resp + poll_interval, script := rest,
                calls := calls w @ [status_call self request_id]\<rparr>)"
  using assms
  by (subst poll_loop.simps)
     (simp add: get_status_fetched sleep_def subscript_status_of [symmetric],
      rule poll_loop_cong, simp_all)

text \<open>A run of pending replies that all start before the timeout.\<close>

lemma wait_loop_run:
  assumes "0 \<le> poll_interval \<and> poll_interval \<le> sleep_max"
    and "script w = ps @ rest"
    and "\<forall>r \<in> set ps. pending_reply r"
    and "\<forall>i < length ps. now w - start + (\<Sum>r\<leftarrow>take i ps. elapsed r) + of_nat i * poll_interval < timeout"
  shows "wait_loop self request_id start timeout poll_interval w =
           wait_loop self request_id start timeout poll_interval
             (w\<lparr>now := now w + (\<Sum>r\<leftarrow>ps. elapsed r) + of_nat (length ps) * poll_interval,
                script := rest,
                calls := calls w @ replicate (length ps) (status_call self request_id)\<rparr>)"
  using assms
proof (induction ps arbitrary: w)
  case Nil
  then show ?case by (intro wait_loop_cong) simp_all
next
  case (Cons r ps)
  let ?w1 = "w\<lparr>now := now w + elapsed r + poll_interval, script := ps @ rest,
                calls := calls w @ [status_call self request_id]\<rparr>"
  have t0: "now w - start < timeout"
    using Cons.prems(4) [rule_format, of 0] by simp
  have step: "wait_loop self request_id start timeout poll_interval w =
              wait_loop self request_id start timeout poll_interval ?w1"
    using wait_loop_pending [OF t0, of r "ps @ rest" poll_interval self request_id] Cons.prems
    by simp
  have timing: "\<forall>i < length ps. now ?w1 - start + (\<Sum>r\<leftarrow>take i ps. elapsed r) + of_nat i * poll_interval < timeout"
  proof (intro allI impI)
    fix i assume "i < length ps"
    then have "now w - start + (\<Sum>r\<leftarrow>take (Suc i) (r # ps). elapsed r) + of_nat (Suc i) * poll_interval < timeout"
      using Cons.prems(4) [rule_format, of "Suc i"] by simp
    then show "now ?w1 - start + (\<Sum>r\<leftarrow>take i ps. elapsed r) + of_nat i * poll_interval < timeout"
      by (simp add: algebra_simps)
  qed
  have "wait_loop self request_id start timeout poll_interval ?w1 =
        wait_loop self request_id start timeout poll_interval
          (?w1\<lparr>now := now ?w1 + (\<Sum>r\<leftarrow>ps. elapsed r) + of_nat (length ps) * poll_interval,
                script := rest,
                calls := calls ?w1 @ replicate (length ps) (status_call self request_id)\<rparr>)"
    using Cons.IH [of ?w1] Cons.prems(1,3) timing by simp
  also have "\<dots> = wait_loop self request_id start timeout poll_interval
             (w\<lparr>now := now w + (\<Sum>r\<leftarrow>r # ps. elapsed r) + of_nat (length (r # ps)) * poll_interval,
                script := rest,
                calls := calls w @ replicate (length (r # ps)) (status_call self request_id)\<rparr>)"
    by (intro wait_loop_cong) (simp_all add: algebra_simps replicate_append_same)
  finally show ?case
    unfolding step .
qed

lemma wait_loop_returns:
  assumes "ps = [] \<or> (0 \<le> poll_interval \<and> poll_interval \<le> sleep_max)"
    and "script w = ps @ resp # rest"
    and "\<forall>r \<in> set ps. pending_reply r"
    and "\<forall>i < length ps. now w - start + (\<Sum>r\<leftarrow>take i ps. elapsed r) + of_nat i * poll_interval < timeout"
    and "fetched resp = Some j"
    and "timeout \<le> now w - start + (\<Sum>r\<leftarrow>ps. elapsed r) + of_nat (length ps) * poll_interval
         \<or> (\<exists>s. status_of j = Some s \<and> s \<noteq> JStr ''pending'')"
  shows "wait_loop self request_id start timeout poll_interval w =
           (Inr j, w\<lparr>now := now w + (\<Sum>r\<leftarrow>ps. elapsed r) + of_nat (length ps) * poll_interval
                             + elapsed resp,
                     script := rest,
                     calls := calls w @ replicate (Suc (length ps)) (status_call self request_id)\<rparr>)"
proof -
  let ?w1 = "w\<lparr>now := now w + (\<Sum>r\<leftarrow>ps. elapsed r) + of_nat (length ps) * poll_interval,
                script := resp # rest,
                calls := calls w @ replicate (length ps) (status_call self request_id)\<rparr>"
  have run: "wait_loop self request_id start timeout poll_interval w =
             wait_loop self request_id start timeout poll_interval ?w1"
  proof (cases "ps = []")
    case True
    then show ?thesis using assms(2) by (intro wait_loop_cong) simp_all
  next
    case False
    then show ?thesis
      using wait_loop_run [of poll_interval w ps "resp # rest" start timeout self request_id] assms
      by simp
  qed
  have last: "wait_loop self request_id start timeout poll_interval ?w1 =
           (Inr j, ?w1\<lparr>now := now ?w1 + elapsed resp, script := rest,
                     calls := calls ?w1 @ [status_call self request_id]\<rparr>)"
  proof (cases "now ?w1 - start < timeout")
    case False
    then show ?thesis
      using assms(5) by (simp add: wait_loop_timeout get_status_fetched)
  next
    case True
    then obtain s where "status_of j = Some s" "s \<noteq> JStr ''pending''"
      using assms(6) by (auto simp: algebra_simps)
    then show ?thesis
      using True assms(5) wait_loop_terminal [of ?w1 start timeout resp rest j s] by simp
  qed
  show ?thesis
    unfolding run last by (simp add: world_eq_iff replicate_append_same)
qed

text \<open>
  The sequence pending, pending, approved: three fetches, when the first fetch and one
  sleep end before the timeout.
\<close>

lemma wait_for_result_pending_pending_approved:
  assumes "0 \<le> poll_interval" and "poll_interval \<le> sleep_max"
    and "0 < timeout" and "elapsed r1 + poll_interval < timeout"
    and "script w = r1 # r2 # r3 # rest"
    and "pending_reply r1" and "pending_reply r2"
    and "fetched r3 = Some j" and "status_of j = Some (JStr ''approved'')"
  shows "wait_for_result self request_id timeout poll_interval w =
           (Inr j, w\<lparr>now := now w + elapsed r1 + elapsed r2 + 2 * poll_interval + elapsed r3,
                     script := rest,
                     calls := calls w @ replicate 3 (status_call self request_id)\<rparr>)"
proof -
  have "wait_loop self request_id (now w) timeout poll_interval w =
           (Inr j, w\<lparr>now := now w + (\<Sum>r\<leftarrow>[r1, r2]. elapsed r)
                             + of_nat (length [r1, r2]) * poll_interval + elapsed r3,
                     script := rest,
                     calls := calls w @ replicate (Suc (length [r1, r2])) (status_call self request_id)\<rparr>)"
    using assms by (intro wait_loop_returns) (auto simp: less_Suc_eq)
  then show ?thesis
    by (simp add: wait_for_result_def world_eq_iff numeral_3_eq_3)
qed

lemma wait_vs_poll:
  assumes "status_of result = Some (JStr ''pending'')"
  shows "wait_loop self request_id start timeout poll_interval w =
     (case poll_loop self request_id start timeout poll_interval result w of
        (Inl e, w') \<Rightarrow> (Inl e, w')
      | (Inr res, w') \<Rightarrow>
          if status_of res = Some (JStr ''pending'') then get_status self request_id w'
          else (Inr res, w'))"
  using assms
proof (induction self request_id start timeout poll_interval result w rule: poll_loop.induct)
  case (1 self request_id start timeout poll_interval result w)
  show ?case
  proof (cases "now w - start < timeout")
    case False
    then show ?thesis
      using "1.prems" by (simp add: wait_loop_timeout poll_loop_timeout)
  next
    case True
    obtain r w1 where g: "get_status self request_id w = (r, w1)"
      by (cases "get_status self request_id w")
    show ?thesis
    proof (cases r)
      case (Inl e)
      then show ?thesis using True g
        by (subst wait_loop.simps, subst poll_loop.simps) simp
    next
      case res: (Inr res)
      show ?thesis
      proof (cases "subscript res ''status''")
        case (Inl e)
        then show ?thesis using True g res
          by (subst wait_loop.simps, subst poll_loop.simps) simp
      next
        case s: (Inr s)
        show ?thesis
        proof (cases "s = JStr ''pending''")
          case False
          then have "status_of res \<noteq> Some (JStr ''pending'')"
            using s by (simp add: status_of_def)
          then show ?thesis using True g res s False
            by (subst wait_loop.simps, subst poll_loop.simps) simp
        next
          case pending: True
          obtain r2 w2 where sl: "sleep poll_interval w1 = (r2, w2)"
            by (cases "sleep poll_interval w1")
          show ?thesis
          proof (cases r2)
            case (Inl e)
            then show ?thesis using True g res s pending sl
              by (subst wait_loop.simps, subst poll_loop.simps) simp
          next
            case u: (Inr u)
            have st: "status_of res = Some (JStr ''pending'')"
              using s pending by (simp add: status_of_def)
            have IH: "wait_loop self request_id start timeout poll_interval w2 =
               (case poll_loop self request_id start timeout poll_interval res w2 of
                  (Inl e, w') \<Rightarrow> (Inl e, w')
                | (Inr res, w') \<Rightarrow>
                    if status_of res = Some (JStr ''pending'') then get_status self request_id w'
                    else (Inr res, w'))"
              using "1.IH" [OF True g [symmetric] res s _ sl [symmetric] u] pending st by simp
            have "wait_loop self request_id start timeout poll_interval w =
                  wait_loop self request_id start timeout poll_interval w2"
              using True g res s pending sl u by (subst wait_loop.simps) simp
            moreover have "poll_loop self request_id start timeout poll_interval result w =
                  poll_loop self request_id start timeout poll_interval res w2"
              using True g res s pending sl u by (subst poll_loop.simps) simp
            ultimately show ?thesis using IH by simp
          qed
        qed
      qed
    qed
  qed
qed


lemmas eval_defs = wait_for_result_def get_status_def request_def sleep_def sleep_max_def
  w_of_def reply_def
  snapshot_def ok_def mk_call_def status_call_def c0_def SynAuthClient_def default_base_url_def
  rstrip_slash_def API_VERSION_def Let_def

text \<open>
  C1, as amended. \<open>wait_for_result\<close> fetches the status again and again, sleeping
  \<open>poll_interval\<close> after each pending snapshot, as long as the time spent since the call
  is below \<open>timeout\<close>; when a sleep happens the interval must be a length \<^verbatim>\<open>time.sleep\<close>
  accepts, not negative and at most \<open>sleep_max\<close>. Let the backend answer \<open>ps\<close>, all
  pending, and then \<open>resp\<close>, and let every fetch of \<open>ps\<close> start before the timeout. If
  the snapshot \<open>j\<close> of \<open>resp\<close> is not pending, or if the timeout has passed when \<open>ps\<close>
  is used up, then \<open>j\<close> is returned, pending or not, as a normal result; exactly
  \<open>length ps + 1\<close> status requests are sent and nothing after \<open>resp\<close> is fetched. For
  the sequence pending, pending, approved this is the approved snapshot after exactly 3
  fetches, provided the first fetch and one sleep end before the timeout (with fetches
  that take no time: \<open>poll_interval < timeout\<close>).
\<close>

theorem wait_for_result_returns:
  assumes "ps = [] \<or> (0 \<le> poll_interval \<and> poll_interval \<le> sleep_max)"
    and "script w = ps @ resp # rest"
    and "\<forall>r \<in> set ps. pending_reply r"
    and "\<forall>i < length ps. (\<Sum>r\<leftarrow>take i ps. elapsed r) + of_nat i * poll_interval < timeout"
    and "fetched resp = Some j"
    and "timeout \<le> (\<Sum>r\<leftarrow>ps. elapsed r) + of_nat (length ps) * poll_interval
         \<or> (\<exists>s. status_of j = Some s \<and> s \<noteq> JStr ''pending'')"
  shows "wait_for_result self request_id timeout poll_interval w =
           (Inr j, w\<lparr>now := now w + (\<Sum>r\<leftarrow>ps. elapsed r) + of_nat (length ps) * poll_interval
                             + elapsed resp,
                     script := rest,
                     calls := calls w @ replicate (Suc (length ps)) (status_call self request_id)\<rparr>)"
  unfolding wait_for_result_def Let_def
  using assms by (intro wait_loop_returns) simp_all


theorem wait_for_result_returns_witness:
  "wait_for_result c0 (JStr ''req_1'') 300 2
     (w_of [reply 0 (snapshot ''pending''), reply 0 (snapshot ''pending''),
            reply 0 (snapshot ''approved'')])
   = (Inr (snapshot ''approved''),
      \<lparr>now = 4, script = [],
       calls = [status_call c0 (JStr ''req_1''), status_call c0 (JStr ''req_1''),
                status_call c0 (JStr ''req_1'')]\<rparr>)
 \<and> wait_for_result c0 (JStr ''req_1'') 1 (1 / 2)
     (w_of [reply 0 (snapshot ''pending''), reply 0 (snapshot ''pending''),
            reply 0 (snapshot ''pending''), reply 0 (snapshot ''approved'')])
   = (Inr (snapshot ''pending''),
      \<lparr>now = 1, script = [reply 0 (snapshot ''approved'')],
       calls = [status_call c0 (JStr ''req_1''), status_call c0 (JStr ''req_1''),
                status_call c0 (JStr ''req_1'')]\<rparr>)"
  using wait_for_result_returns [of "[reply 0 (snapshot ''pending''), reply 0 (snapshot ''pending'')]"
      2 "w_of [reply 0 (snapshot ''pending''), reply 0 (snapshot ''pending''),
            reply 0 (snapshot ''approved'')]" "reply 0 (snapshot ''approved'')" "[]" 300
      "snapshot ''approved''" c0 "JStr ''req_1''"]
    wait_for_result_returns [of "[reply 0 (snapshot ''pending''), reply 0 (snapshot ''pending'')]"
      "1 / 2" "w_of [reply 0 (snapshot ''pending''), reply 0 (snapshot ''pending''),
            reply 0 (snapshot ''pending''), reply 0 (snapshot ''approved'')]"
      "reply 0 (snapshot ''pending'')" "[reply 0 (snapshot ''approved'')]" 1
      "snapshot ''pending''" c0 "JStr ''req_1''"]
  by (simp add: w_of_def reply_def snapshot_def pending_reply_def fetched_def status_of_def ok_def
      sleep_max_def less_Suc_eq numeral_2_eq_2 all_conj_distrib)

text \<open>
  C1 as stated fails in two ways. With a negative \<open>poll_interval\<close> the first sleep
  raises \<open>ValueError\<close> after one fetch. With \<open>poll_interval = 2 < timeout = 3\<close> and a
  first fetch that takes 2 seconds, the loop is left after one turn and the final check
  returns the second snapshot, still pending, after 2 fetches.
\<close>

theorem wait_for_result_counterexample:
  "wait_for_result c0 (JStr ''req_1'') 5 (- 1)
     (w_of [reply 0 (snapshot ''pending''), reply 0 (snapshot ''pending''),
            reply 0 (snapshot ''approved'')])
   = (Inl ValueError,
      \<lparr>now = 0,
       script = [reply 0 (snapshot ''pending''), reply 0 (snapshot ''approved'')],
       calls = [status_call c0 (JStr ''req_1'')]\<rparr>)
 \<and> wait_for_result c0 (JStr ''req_1'') 3 2
     (w_of [reply 2 (snapshot ''pending''), reply 0 (snapshot ''pending''),
            reply 0 (snapshot ''approved'')])
   = (Inr (snapshot ''pending''),
      \<lparr>now = 4, script = [reply 0 (snapshot ''approved'')],
       calls = [status_call c0 (JStr ''req_1''), status_call c0 (JStr ''req_1'')]\<rparr>)"
  by (simp add: eval_defs wait_loop.simps)

text \<open>
  How the polling phase of \<open>execute_api_call\<close> and \<open>wait_for_result\<close> differ, for the
  same \<open>timeout\<close> and \<open>poll_interval\<close>: they make the same status fetches and end alike
  whenever a fetch inside the loop fails or returns a snapshot that is not pending. When
  the time is up with the snapshot still pending, the polling phase stops and keeps the
  pending snapshot, while \<open>wait_for_result\<close> makes one more status fetch (line 187) and
  returns its result.
\<close>

lemma poll_phase_and_wait_for_result:
  assumes "status_of result = Some (JStr ''pending'')"
  shows "wait_for_result self request_id timeout poll_interval w =
     (case execute_api_call_wait self request_id timeout poll_interval result w of
        (Inl e, w') \<Rightarrow> (Inl e, w')
      | (Inr res, w') \<Rightarrow>
          if status_of res = Some (JStr ''pending'') then get_status self request_id w'
          else (Inr res, w'))"
proof -
  have "dict_get result ''status'' = Inr (JStr ''pending'')"
    using assms by (cases result) (auto simp: status_of_def split: option.splits)
  then show ?thesis
    using wait_vs_poll [OF assms, of self request_id "now w" timeout poll_interval w]
    by (simp add: wait_for_result_def execute_api_call_wait_def)
qed

text \<open>
  C4 says that the polling phase of \<open>execute_api_call\<close> and \<open>wait_for_result\<close> make the
  same number of status fetches and end with the same snapshot, also after the timeout.
  The code does not: for the answers pending, approved with \<open>timeout = poll_interval = 1\<close>,
  \<open>wait_for_result\<close> makes 2 fetches and returns the approved snapshot; the polling phase
  makes 1 fetch and keeps the pending one; and \<open>execute_api_call\<close>, on these answers
  after a pending create response, raises \<open>VaultExecutionError\<close> for the status
  \<^verbatim>\<open>"pending"\<close> without asking again, though the backend has approved.
\<close>

theorem poll_phase_timeout_evaluation:
  "wait_for_result c0 (JStr ''req_1'') 1 1
     (w_of [reply 0 (snapshot ''pending''), reply 0 (snapshot ''approved'')])
   = (Inr (snapshot ''approved''),
      \<lparr>now = 1, script = [],
       calls = [status_call c0 (JStr ''req_1''), status_call c0 (JStr ''req_1'')]\<rparr>)
 \<and> execute_api_call_wait c0 (JStr ''req_1'') 1 1 (snapshot ''pending'')
     (w_of [reply 0 (snapshot ''pending''), reply 0 (snapshot ''approved'')])
   = (Inr (snapshot ''pending''),
      \<lparr>now = 1, script = [reply 0 (snapshot ''approved'')],
       calls = [status_call c0 (JStr ''req_1'')]\<rparr>)
 \<and> execute_api_call c0 ''openai'' ''POST'' ''https://api.openai.com/v1/models'' None None None
       1 1 (w_of [reply 0 (snapshot ''pending''), reply 0 (snapshot ''pending''),
                  reply 0 (snapshot ''approved''), reply 0 vault_response])
   = (Inl (VaultExecutionError (JStr ''pending'') (JStr ''req_1'')),
      \<lparr>now = 1, script = [reply 0 (snapshot ''approved''), reply 0 vault_response],
       calls = [mk_call c0 ''POST'' ActionsPath (Some openai_payload),
                status_call c0 (JStr ''req_1'')]\<rparr>)"
  by (simp add: eval_defs execute_api_call_def execute_api_call_wait_def
      execute_api_call_finish_def openai_payload_def wait_loop.simps poll_loop.simps)

section \<open>The request layer\<close>

text \<open>
  C3, as amended. For the response \<open>resp\<close> that \<open>request\<close> processes: status 429 raises
  \<open>RateLimitError\<close>, a \<open>SynAuthAPIError\<close> with status code 429 and a kind of its own;
  every other status from 400 to 599 raises \<open>SynAuthAPIError\<close> with the status code and a
  detail, which is the response text when parsing the body raises \<open>ValueError\<close> (the
  body is no JSON; nothing else is raised then) and, when the body is a JSON object, its
  \<^verbatim>\<open>detail\<close> field, or the response text if it has none.
\<close>

theorem request_error_mapping:
  assumes "script w = resp # rest"
  shows
   "(status_code resp = 429 \<longrightarrow>
       (\<exists>e. request self method path body w
               = (Inl e, w\<lparr>now := now w + elapsed resp, script := rest,
                            calls := calls w @ [mk_call self method path body]\<rparr>)
          \<and> e = RateLimitError ''Rate limit exceeded''
          \<and> isinstance_SynAuthAPIError e \<and> error_status_code e = Some 429
          \<and> (\<forall>c d. e \<noteq> SynAuthAPIError c d)))
  \<and> (status_code resp \<noteq> 429 \<and> 400 \<le> status_code resp \<and> status_code resp < 600
       \<and> json_body resp = Inl ValueError \<longrightarrow>
       request self method path body w
         = (Inl (SynAuthAPIError (status_code resp) (JStr (resp_text resp))),
            w\<lparr>now := now w + elapsed resp, script := rest,
              calls := calls w @ [mk_call self method path body]\<rparr>))
  \<and> (\<forall>kv. status_code resp \<noteq> 429 \<and> 400 \<le> status_code resp \<and> status_code resp < 600
       \<and> json_body resp = Inr (JObj kv) \<longrightarrow>
       request self method path body w
         = (Inl (SynAuthAPIError (status_code resp)
                   (case map_of kv ''detail'' of Some d \<Rightarrow> d | None \<Rightarrow> JStr (resp_text resp))),
            w\<lparr>now := now w + elapsed resp, script := rest,
              calls := calls w @ [mk_call self method path body]\<rparr>))"
  using assms by (simp add: request_def ok_def Let_def)

theorem request_error_mapping_witness:
  "request c0 ''GET'' ActionsPath None (w_of [resp_429])
     = (Inl (RateLimitError ''Rate limit exceeded''),
        \<lparr>now = 0, script = [], calls = [mk_call c0 ''GET'' ActionsPath None]\<rparr>)
 \<and> request c0 ''GET'' ActionsPath None (w_of [resp_403])
     = (Inl (SynAuthAPIError 403 (JStr ''forbidden'')),
        \<lparr>now = 0, script = [], calls = [mk_call c0 ''GET'' ActionsPath None]\<rparr>)
 \<and> request c0 ''GET'' ActionsPath None (w_of [resp_500])
     = (Inl (SynAuthAPIError 500 (JStr ''Internal Server Error'')),
        \<lparr>now = 0, script = [], calls = [mk_call c0 ''GET'' ActionsPath None]\<rparr>)"
  using request_error_mapping [of "w_of [resp_429]" resp_429 "[]" c0 "''GET''" ActionsPath None]
    request_error_mapping [of "w_of [resp_403]" resp_403 "[]" c0 "''GET''" ActionsPath None]
    request_error_mapping [of "w_of [resp_500]" resp_500 "[]" c0 "''GET''" ActionsPath None]
  by (simp add: w_of_def resp_429_def resp_403_def resp_500_def)

text \<open>
  C3 as stated fails for a status that is neither 2xx nor an error for \<^verbatim>\<open>resp.ok\<close>.
  A 304 response, which has no body, passes the test of line 118 and \<^verbatim>\<open>resp.json()\<close>
  on line 125 raises \<open>ValueError\<close>: no \<open>SynAuthAPIError\<close>. A 300 response with a JSON
  body is returned as a normal result.
\<close>

theorem request_redirect_counterexample:
  "request c0 ''GET'' ActionsPath None (w_of [resp_304])
     = (Inl ValueError, \<lparr>now = 0, script = [], calls = [mk_call c0 ''GET'' ActionsPath None]\<rparr>)
 \<and> request c0 ''GET'' ActionsPath None (w_of [resp_300])
     = (Inr (JObj [(''detail'', JStr ''multiple choices'')]),
        \<lparr>now = 0, script = [], calls = [mk_call c0 ''GET'' ActionsPath None]\<rparr>)"
  by (simp add: request_def ok_def w_of_def resp_304_def resp_300_def)

text \<open>
  Two error paths of line 120 that the clause \<^verbatim>\<open>except (ValueError, KeyError)\<close> does
  not catch, at status 500: a body that is JSON but no object, where \<^verbatim>\<open>.get\<close> raises
  \<open>AttributeError\<close>, and a body nested too deeply, where \<^verbatim>\<open>resp.json()\<close> raises
  \<open>RecursionError\<close>.
\<close>

lemma request_non_object_body:
  "request c0 ''GET'' ActionsPath None
     (w_of [\<lparr>status_code = 500, resp_text = ''[]'', json_body = Inr (JArr []), elapsed = 0\<rparr>])
     = (Inl AttributeError,
        \<lparr>now = 0, script = [], calls = [mk_call c0 ''GET'' ActionsPath None]\<rparr>)"
  by (simp add: request_def ok_def w_of_def)

lemma request_deep_body:
  "request c0 ''GET'' ActionsPath None
     (w_of [\<lparr>status_code = 500, resp_text = ''[[[[[[[['', json_body = Inl RecursionError,
             elapsed = 0\<rparr>])
     = (Inl RecursionError,
        \<lparr>now = 0, script = [], calls = [mk_call c0 ''GET'' ActionsPath None]\<rparr>)"
  by (simp add: request_def ok_def w_of_def)

section \<open>Vault execution\<close>

lemma request_calls:
  "calls (snd (request self method path body w)) = calls w @ [mk_call self method path body]"
  by (simp add: request_def Let_def split: list.splits sum.splits json.splits)

lemma request_calls':
  "request self method path body w = (r, w') \<Longrightarrow>
   calls w' = calls w @ [mk_call self method path body]"
  using request_calls [of self "method" "path" body w] by simp

lemma sleep_calls: "sleep d w = (r, w') \<Longrightarrow> calls w' = calls w"
  by (auto simp: sleep_def split: if_splits)

lemma poll_loop_calls:
  "\<exists>cs. calls (snd (poll_loop self request_id start timeout poll_interval result w)) = calls w @ cs"
proof (induction self request_id start timeout poll_interval result w rule: poll_loop.induct)
  case (1 self request_id start timeout poll_interval result w)
  show ?case
  proof (cases "now w - start < timeout")
    case False
    then show ?thesis by (simp add: poll_loop_timeout)
  next
    case True
    obtain r w1 where g: "get_status self request_id w = (r, w1)"
      by (cases "get_status self request_id w")
    have c1: "calls w1 = calls w @ [status_call self request_id]"
      using g by (simp add: get_status_def status_call_def request_calls')
    show ?thesis
    proof (cases r)
      case (Inl e)
      then show ?thesis using True g c1 by (subst poll_loop.simps) simp
    next
      case res: (Inr res)
      show ?thesis
      proof (cases "subscript res ''status''")
        case (Inl e)
        then show ?thesis using True g c1 res by (subst poll_loop.simps) simp
      next
        case s: (Inr s)
        show ?thesis
        proof (cases "s = JStr ''pending''")
          case False
          then show ?thesis using True g c1 res s by (subst poll_loop.simps) simp
        next
          case pending: True
          obtain r2 w2 where sl: "sleep poll_interval w1 = (r2, w2)"
            by (cases "sleep poll_interval w1")
          have c2: "calls w2 = calls w1" using sl by (rule sleep_calls)
          show ?thesis
          proof (cases r2)
            case (Inl e)
            then show ?thesis using True g c1 res s pending sl c2
              by (subst poll_loop.simps) simp
          next
            case u: (Inr u)
            obtain cs where
              "calls (snd (poll_loop self request_id start timeout poll_interval res w2))
                 = calls w2 @ cs"
              using "1.IH" [OF True g [symmetric] res s _ sl [symmetric] u] pending by auto
            then show ?thesis using True g c1 res s pending sl c2 u
              by (subst poll_loop.simps) simp
          qed
        qed
      qed
    qed
  qed
qed

lemma execute_api_call_wait_calls:
  "\<exists>cs. calls (snd (execute_api_call_wait self request_id timeout poll_interval result w))
          = calls w @ cs"
  using poll_loop_calls [of self request_id "now w" timeout poll_interval result w]
  by (auto simp: execute_api_call_wait_def split: sum.splits)

lemma execute_api_call_finish_calls:
  "\<exists>cs. calls (snd (execute_api_call_finish self request_id result w)) = calls w @ cs"
  by (auto simp: execute_api_call_finish_def request_calls split: sum.splits)

lemma execute_api_call_calls:
  "\<exists>cs. calls (snd (execute_api_call self service_name method url headers body description
                       timeout poll_interval w))
     = calls w @ mk_call self ''POST'' ActionsPath
                   (Some (vault_payload service_name method url headers body description)) # cs"
proof -
  let ?c = "mk_call self ''POST'' ActionsPath
              (Some (vault_payload service_name method url headers body description))"
  obtain r w1 where rq: "request self ''POST'' ActionsPath
       (Some (vault_payload service_name method url headers body description)) w = (r, w1)"
    by (cases "request self ''POST'' ActionsPath
       (Some (vault_payload service_name method url headers body description)) w")
  have c1: "calls w1 = calls w @ [?c]" using rq by (rule request_calls')
  show ?thesis
  proof (cases r)
    case (Inl e)
    then show ?thesis using rq c1 by (simp add: execute_api_call_def)
  next
    case res: (Inr result)
    show ?thesis
    proof (cases "dict_get result ''status''")
      case (Inl e)
      then show ?thesis using rq c1 res by (simp add: execute_api_call_def)
    next
      case st: (Inr st)
      show ?thesis
      proof (cases "subscript result ''id''")
        case (Inl e)
        then show ?thesis using rq c1 res st by (simp add: execute_api_call_def)
      next
        case rid: (Inr rid)
        show ?thesis
        proof (cases "st = JStr ''denied''")
          case True
          then show ?thesis using rq c1 res st rid
            by (simp add: execute_api_call_def split: sum.splits)
        next
          case False
          obtain r2 w2 where wt: "execute_api_call_wait self rid timeout poll_interval result w1 = (r2, w2)"
            by (cases "execute_api_call_wait self rid timeout poll_interval result w1")
          obtain cs where c2: "calls w2 = calls w1 @ cs"
            using execute_api_call_wait_calls [of self rid timeout poll_interval result w1] wt
            by auto
          show ?thesis
          proof (cases r2)
            case (Inl e)
            then show ?thesis using rq c1 res st rid False wt c2
              by (simp add: execute_api_call_def)
          next
            case r2: (Inr result2)
            obtain cs' where "calls (snd (execute_api_call_finish self rid result2 w2)) = calls w2 @ cs'"
              using execute_api_call_finish_calls by blast
            then show ?thesis using rq c1 res st rid False wt c2 r2
              by (simp add: execute_api_call_def)
          qed
        qed
      qed
    qed
  qed
qed

lemma either_Some [simp]: "either (Some x) b = Some x"
  by (simp add: either_def)

lemma either_None [simp]: "either None b = b"
  by (simp add: either_def)

lemma or_default_simps [simp]: "or_default (Some x) d = x" "or_default None d = d"
  by (simp_all add: or_default_def)

text \<open>
  C9. Whatever the service, method, URL, headers and body, the first request
  \<open>execute_api_call\<close> sends is the POST of \<open>vault_payload\<close> to \<^verbatim>\<open>/actions\<close>: its
  action_type is \<^verbatim>\<open>"data_access"\<close>, its risk_level \<^verbatim>\<open>"medium"\<close>, and its metadata holds
  \<^verbatim>\<open>vault_execute = true\<close> with the service name, method, URL, headers and body.
\<close>

theorem execute_api_call_request:
  "(\<exists>cs. calls (snd (execute_api_call self service_name method url headers body description
                       timeout poll_interval w))
     = calls w @ mk_call self ''POST'' ActionsPath
                   (Some (vault_payload service_name method url headers body description)) # cs)
 \<and> subscript (vault_payload service_name method url headers body description) ''action_type''
     = Inr (JStr ''data_access'')
 \<and> subscript (vault_payload service_name method url headers body description) ''risk_level''
     = Inr (JStr ''medium'')
 \<and> subscript (vault_payload service_name method url headers body description) ''metadata''
     = Inr (JObj [(''vault_execute'', JBool True),
                  (''service_name'', JStr service_name),
                  (''method'', JStr method),
                  (''url'', JStr url),
                  (''headers'', JObj (case headers of Some h \<Rightarrow> h | None \<Rightarrow> [])),
                  (''body'', (case body of Some b \<Rightarrow> JStr b | None \<Rightarrow> JNull))])"
  using execute_api_call_calls [of self service_name "method" "url" headers body description
      timeout poll_interval w]
  by (simp add: vault_payload_def split: option.splits)

theorem execute_api_call_request_witness:
  "map call_json (calls (snd (execute_api_call c0 ''openai'' ''POST''
       ''https://api.openai.com/v1/models'' None None None 120 3
       (w_of [reply 0 denied_snapshot]))))
     = [Some (JObj
         [(''action_type'', JStr ''data_access''),
          (''title'', JStr ''API call: POST https://api.openai.com/v1/models''),
          (''description'', JStr ''Service: openai | POST https://api.openai.com/v1/models''),
          (''risk_level'', JStr ''medium''),
          (''metadata'', JObj
             [(''vault_execute'', JBool True), (''service_name'', JStr ''openai''),
              (''method'', JStr ''POST''), (''url'', JStr ''https://api.openai.com/v1/models''),
              (''headers'', JObj []), (''body'', JNull)])])]"
  using execute_api_call_request [of c0 "''openai''" "''POST''"
      "''https://api.openai.com/v1/models''" None None None 120 3 "w_of [reply 0 denied_snapshot]"]
  by (simp add: execute_api_call_def request_def w_of_def reply_def ok_def denied_snapshot_def
      vault_payload_def mk_call_def)

text \<open>
  C2. If the create response has the status \<^verbatim>\<open>"denied"\<close> (and an id),
  \<open>execute_api_call\<close> raises \<open>ActionDeniedError\<close> with the id and the deny reason, and
  the create request is the only request sent. Otherwise, with the snapshot \<open>result2\<close>
  held after the wait phase: \<^verbatim>\<open>"expired"\<close> raises \<open>ActionExpiredError\<close>, \<^verbatim>\<open>"denied"\<close>
  raises \<open>ActionDeniedError\<close> with the reason, any other status than \<^verbatim>\<open>"approved"\<close>
  raises \<open>VaultExecutionError\<close> naming the status, all without a further request; on
  \<^verbatim>\<open>"approved"\<close> exactly one more request is sent, the POST to
  \<^verbatim>\<open>/vault/execute/{id}\<close>, and its outcome is returned.
\<close>

theorem execute_api_call_outcomes:
  "(\<forall>resp rest result rid reason.
      script w = resp # rest \<and> fetched resp = Some result
      \<and> dict_get result ''status'' = Inr (JStr ''denied'')
      \<and> subscript result ''id'' = Inr rid \<and> dict_get result ''deny_reason'' = Inr reason \<longrightarrow>
      execute_api_call self service_name method url headers body description timeout
          poll_interval w
        = (Inl (ActionDeniedError rid reason),
           w\<lparr>now := now w + elapsed resp, script := rest,
             calls := calls w @ [mk_call self ''POST'' ActionsPath
                (Some (vault_payload service_name method url headers body description))]\<rparr>))
 \<and> (\<forall>result w1 st rid result2 w2 st2 reason2.
      request self ''POST'' ActionsPath
          (Some (vault_payload service_name method url headers body description)) w
        = (Inr result, w1)
      \<and> dict_get result ''status'' = Inr st \<and> st \<noteq> JStr ''denied''
      \<and> subscript result ''id'' = Inr rid
      \<and> execute_api_call_wait self rid timeout poll_interval result w1 = (Inr result2, w2)
      \<and> dict_get result2 ''status'' = Inr st2
      \<and> dict_get result2 ''deny_reason'' = Inr reason2 \<longrightarrow>
      execute_api_call self service_name method url headers body description timeout
          poll_interval w
        = (if st2 = JStr ''expired'' then (Inl (ActionExpiredError rid), w2)
           else if st2 = JStr ''denied'' then (Inl (ActionDeniedError rid reason2), w2)
           else if st2 \<noteq> JStr ''approved'' then (Inl (VaultExecutionError st2 rid), w2)
           else request self ''POST'' (VaultExecutePath rid) None w2)
      \<and> calls (snd (request self ''POST'' (VaultExecutePath rid) None w2))
          = calls w2 @ [mk_call self ''POST'' (VaultExecutePath rid) None])"
  by (simp add: execute_api_call_def execute_api_call_finish_def request_fetched request_calls)

theorem execute_api_call_outcomes_witness:
  "execute_api_call c0 ''openai'' ''POST'' ''https://api.openai.com/v1/models'' None None None
       120 3 (w_of [reply 0 denied_snapshot, reply 0 vault_response])
     = (Inl (ActionDeniedError (JStr ''req_1'') (JStr ''over limit'')),
        \<lparr>now = 0, script = [reply 0 vault_response],
         calls = [mk_call c0 ''POST'' ActionsPath (Some openai_payload)]\<rparr>)
 \<and> execute_api_call c0 ''openai'' ''POST'' ''https://api.openai.com/v1/models'' None None None
       120 3 (w_of [reply 0 (snapshot ''pending''), reply 0 (snapshot ''approved''),
                    reply 0 vault_response])
     = (Inr vault_response,
        \<lparr>now = 0, script = [],
         calls = [mk_call c0 ''POST'' ActionsPath (Some openai_payload),
                  status_call c0 (JStr ''req_1''),
                  mk_call c0 ''POST'' (VaultExecutePath (JStr ''req_1'')) None]\<rparr>)"
proof -
  let ?e = "execute_api_call c0 ''openai'' ''POST'' ''https://api.openai.com/v1/models'' None None
              None 120 3"
  let ?c = "mk_call c0 ''POST'' ActionsPath (Some openai_payload)"
  let ?w1 = "\<lparr>now = 0, script = [reply 0 (snapshot ''approved''), reply 0 vault_response],
              calls = [?c]\<rparr>"
  let ?w2 = "\<lparr>now = 0, script = [reply 0 vault_response],
              calls = [?c, status_call c0 (JStr ''req_1'')]\<rparr>"
  have a: "?e (w_of [reply 0 denied_snapshot, reply 0 vault_response])
     = (Inl (ActionDeniedError (JStr ''req_1'') (JStr ''over limit'')),
        \<lparr>now = 0, script = [reply 0 vault_response], calls = [?c]\<rparr>)"
    using execute_api_call_outcomes [of "w_of [reply 0 denied_snapshot, reply 0 vault_response]"
        c0 "''openai''" "''POST''" "''https://api.openai.com/v1/models''" None None None 120 3,
        THEN conjunct1, rule_format,
        of "reply 0 denied_snapshot" "[reply 0 vault_response]" denied_snapshot "JStr ''req_1''"
           "JStr ''over limit''"]
    by (simp add: w_of_def reply_def denied_snapshot_def fetched_def ok_def openai_payload_def)
  have r1: "request c0 ''POST'' ActionsPath (Some openai_payload)
              (w_of [reply 0 (snapshot ''pending''), reply 0 (snapshot ''approved''),
                     reply 0 vault_response])
            = (Inr (snapshot ''pending''), ?w1)"
    by (simp add: request_def w_of_def reply_def ok_def)
  have r2: "execute_api_call_wait c0 (JStr ''req_1'') 120 3 (snapshot ''pending'') ?w1
            = (Inr (snapshot ''approved''), ?w2)"
    by (simp add: execute_api_call_wait_def poll_loop.simps get_status_def request_def
        reply_def ok_def snapshot_def status_call_def)
  have r3: "request c0 ''POST'' (VaultExecutePath (JStr ''req_1'')) None ?w2
            = (Inr vault_response,
               \<lparr>now = 0, script = [],
                calls = [?c, status_call c0 (JStr ''req_1''),
                         mk_call c0 ''POST'' (VaultExecutePath (JStr ''req_1'')) None]\<rparr>)"
    by (simp add: request_def reply_def ok_def)
  have b: "?e (w_of [reply 0 (snapshot ''pending''), reply 0 (snapshot ''approved''),
                    reply 0 vault_response])
     = (Inr vault_response,
        \<lparr>now = 0, script = [],
         calls = [?c, status_call c0 (JStr ''req_1''),
                  mk_call c0 ''POST'' (VaultExecutePath (JStr ''req_1'')) None]\<rparr>)"
    using execute_api_call_outcomes [of
        "w_of [reply 0 (snapshot ''pending''), reply 0 (snapshot ''approved''),
               reply 0 vault_response]"
        c0 "''openai''" "''POST''" "''https://api.openai.com/v1/models''" None None None 120 3,
        THEN conjunct2, rule_format,
        of "snapshot ''pending''" ?w1 "JStr ''pending''" "JStr ''req_1''"
           "snapshot ''approved''" ?w2 "JStr ''approved''" JNull]
      r1 r2 r3
    by (simp add: openai_payload_def snapshot_def)
  show ?thesis using a b by simp
qed

section \<open>The helpers and the payment client\<close>

text \<open>
  Each helper is \<open>request_action\<close> with its own action type, title and description, the
  caller's risk level or the helper's default, and the other keywords of the caller; it
  raises \<open>TypeError\<close>, with nothing sent, exactly when a keyword is not accepted.
\<close>

lemma request_email_eq:
  "request_email self recipient subject preview kwargs w =
     (if email_keywords_ok kwargs then
        request_action self ''communication'' (''Send email: '' @ subject) preview
          (or_default (kw_risk_level kwargs) ''low'') (or_default (kw_reversible kwargs) True)
          (or_default (kw_amount kwargs) None) (or_default (kw_currency kwargs) ''USD'')
          (Some recipient) (or_default (kw_metadata kwargs) None)
          (or_default (kw_expires_in_seconds kwargs) 300)
          (or_default (kw_callback_url kwargs) None) w
      else (Inl TypeError, w))"
  by (auto simp: request_email_def pop_risk_level_def call_request_action_def given_twice_def
      no_kwargs_def email_keywords_ok_def)

lemma request_purchase_eq:
  "request_purchase self amount merchant description kwargs w =
     (if purchase_keywords_ok kwargs then
        request_action self ''purchase'' (''Purchase from '' @ merchant) description
          (or_default (kw_risk_level kwargs) ''medium'') (or_default (kw_reversible kwargs) True)
          (Some amount) (or_default (kw_currency kwargs) ''USD'')
          (Some merchant) (or_default (kw_metadata kwargs) None)
          (or_default (kw_expires_in_seconds kwargs) 300)
          (or_default (kw_callback_url kwargs) None) w
      else (Inl TypeError, w))"
  by (auto simp: request_purchase_def pop_risk_level_def call_request_action_def given_twice_def
      no_kwargs_def purchase_keywords_ok_def)

lemma request_booking_eq:
  "request_booking self title description amount kwargs w =
     (if booking_keywords_ok kwargs then
        request_action self ''scheduling'' title description
          (or_default (kw_risk_level kwargs) ''low'') (or_default (kw_reversible kwargs) True)
          amount (or_default (kw_currency kwargs) ''USD'')
          (or_default (kw_recipient kwargs) None) (or_default (kw_metadata kwargs) None)
          (or_default (kw_expires_in_seconds kwargs) 300)
          (or_default (kw_callback_url kwargs) None) w
      else (Inl TypeError, w))"
  by (auto simp: request_booking_def pop_risk_level_def call_request_action_def given_twice_def
      no_kwargs_def booking_keywords_ok_def)

lemma request_post_eq:
  "request_post self platform content_preview kwargs w =
     (if post_keywords_ok kwargs then
        request_action self ''social'' (''Post to '' @ platform) (Some content_preview)
          (or_default (kw_risk_level kwargs) ''medium'') (or_default (kw_reversible kwargs) True)
          (or_default (kw_amount kwargs) None) (or_default (kw_currency kwargs) ''USD'')
          (or_default (kw_recipient kwargs) None) (or_default (kw_metadata kwargs) None)
          (or_default (kw_expires_in_seconds kwargs) 300)
          (or_default (kw_callback_url kwargs) None) w
      else (Inl TypeError, w))"
  by (auto simp: request_post_def pop_risk_level_def call_request_action_def given_twice_def
      no_kwargs_def post_keywords_ok_def)

lemma request_data_access_eq:
  "request_data_access self resource reason kwargs w =
     (if data_access_keywords_ok kwargs then
        request_action self ''data_access'' (''Access: '' @ resource) (Some reason)
          (or_default (kw_risk_level kwargs) ''high'') (or_default (kw_reversible kwargs) True)
          (or_default (kw_amount kwargs) None) (or_default (kw_currency kwargs) ''USD'')
          (or_default (kw_recipient kwargs) None) (or_default (kw_metadata kwargs) None)
          (or_default (kw_expires_in_seconds kwargs) 300)
          (or_default (kw_callback_url kwargs) None) w
      else (Inl TypeError, w))"
  by (auto simp: request_data_access_def pop_risk_level_def call_request_action_def given_twice_def
      no_kwargs_def data_access_keywords_ok_def)

lemma request_contract_eq:
  "request_contract self title description kwargs w =
     (if contract_keywords_ok kwargs then
        request_action self ''legal'' title (Some description)
          (or_default (kw_risk_level kwargs) ''critical'') False
          (or_default (kw_amount kwargs) None) (or_default (kw_currency kwargs) ''USD'')
          (or_default (kw_recipient kwargs) None) (or_default (kw_metadata kwargs) None)
          (or_default (kw_expires_in_seconds kwargs) 300)
          (or_default (kw_callback_url kwargs) None) w
      else (Inl TypeError, w))"
  by (auto simp: request_contract_def pop_risk_level_def call_request_action_def given_twice_def
      no_kwargs_def contract_keywords_ok_def)

lemma request_payment_submits:
  "request_payment pay amount merchant description currency metadata w
     = request (auth pay) ''POST'' ActionsPath
         (Some (JObj (request_action_payload ''purchase'' (''Purchase from '' @ merchant)
            (Some description) ''medium'' True (Some amount) currency (Some merchant)
            metadata 300 None))) w"
  by (simp add: request_payment_def request_purchase_def pop_risk_level_def
      call_request_action_def no_kwargs_def given_twice_def request_action_def)

lemma request_action_submits:
  "\<exists>P. request_action self action_type title description risk_level reversible amount
          currency recipient metadata expires_in_seconds callback_url w
        = request self ''POST'' ActionsPath (Some (JObj P)) w
     \<and> map_of P ''action_type'' = Some (JStr action_type)
     \<and> map_of P ''risk_level'' = Some (JStr risk_level)
     \<and> map_of P ''reversible'' = Some (JBool reversible)"
  by (rule exI [of _ "request_action_payload action_type title description risk_level
        reversible amount currency recipient metadata expires_in_seconds callback_url"])
     (simp add: request_action_def payload_required)

text \<open>
  C7. A helper called with keywords it accepts submits with its fixed action type and
  with the caller's risk level, which defaults to: low for email (communication) and
  booking (scheduling), medium for purchase and social post, high for data access,
  critical for contract (legal); the contract helper always submits with
  \<^verbatim>\<open>reversible = false\<close>. Called with a keyword it does not accept, a helper raises
  \<open>TypeError\<close> and sends nothing. The payment wrapper always submits, with action type
  \<^verbatim>\<open>"purchase"\<close>.
\<close>

theorem helper_defaults:
  "(email_keywords_ok kwargs \<longrightarrow>
    (\<exists>P. request_email self recipient subject preview kwargs w
            = request self ''POST'' ActionsPath (Some (JObj P)) w
       \<and> map_of P ''action_type'' = Some (JStr ''communication'')
       \<and> map_of P ''risk_level'' = Some (JStr (or_default (kw_risk_level kwargs) ''low''))))
 \<and> (\<not> email_keywords_ok kwargs \<longrightarrow>
      request_email self recipient subject preview kwargs w = (Inl TypeError, w))
 \<and> (purchase_keywords_ok kwargs \<longrightarrow>
    (\<exists>P. request_purchase self amount merchant description kwargs w
            = request self ''POST'' ActionsPath (Some (JObj P)) w
       \<and> map_of P ''action_type'' = Some (JStr ''purchase'')
       \<and> map_of P ''risk_level'' = Some (JStr (or_default (kw_risk_level kwargs) ''medium''))))
 \<and> (\<not> purchase_keywords_ok kwargs \<longrightarrow>
      request_purchase self amount merchant description kwargs w = (Inl TypeError, w))
 \<and> (booking_keywords_ok kwargs \<longrightarrow>
    (\<exists>P. request_booking self title description amount' kwargs w
            = request self ''POST'' ActionsPath (Some (JObj P)) w
       \<and> map_of P ''action_type'' = Some (JStr ''scheduling'')
       \<and> map_of P ''risk_level'' = Some (JStr (or_default (kw_risk_level kwargs) ''low''))))
 \<and> (\<not> booking_keywords_ok kwargs \<longrightarrow>
      request_booking self title description amount' kwargs w = (Inl TypeError, w))
 \<and> (post_keywords_ok kwargs \<longrightarrow>
    (\<exists>P. request_post self platform content_preview kwargs w
            = request self ''POST'' ActionsPath (Some (JObj P)) w
       \<and> map_of P ''action_type'' = Some (JStr ''social'')
       \<and> map_of P ''risk_level'' = Some (JStr (or_default (kw_risk_level kwargs) ''medium''))))
 \<and> (\<not> post_keywords_ok kwargs \<longrightarrow>
      request_post self platform content_preview kwargs w = (Inl TypeError, w))
 \<and> (data_access_keywords_ok kwargs \<longrightarrow>
    (\<exists>P. request_data_access self resource reason kwargs w
            = request self ''POST'' ActionsPath (Some (JObj P)) w
       \<and> map_of P ''action_type'' = Some (JStr ''data_access'')
       \<and> map_of P ''risk_level'' = Some (JStr (or_default (kw_risk_level kwargs) ''high''))))
 \<and> (\<not> data_access_keywords_ok kwargs \<longrightarrow>
      request_data_access self resource reason kwargs w = (Inl TypeError, w))
 \<and> (contract_keywords_ok kwargs \<longrightarrow>
    (\<exists>P. request_contract self title terms kwargs w
            = request self ''POST'' ActionsPath (Some (JObj P)) w
       \<and> map_of P ''action_type'' = Some (JStr ''legal'')
       \<and> map_of P ''reversible'' = Some (JBool False)
       \<and> map_of P ''risk_level'' = Some (JStr (or_default (kw_risk_level kwargs) ''critical''))))
 \<and> (\<not> contract_keywords_ok kwargs \<longrightarrow>
      request_contract self title terms kwargs w = (Inl TypeError, w))
 \<and> (\<exists>P. request_payment pay amount merchant terms currency metadata w
            = request (auth pay) ''POST'' ActionsPath (Some (JObj P)) w
       \<and> map_of P ''action_type'' = Some (JStr ''purchase'')
       \<and> map_of P ''risk_level'' = Some (JStr ''medium''))"
proof -
  have pay: "\<exists>P. request_payment pay amount merchant terms currency metadata w
            = request (auth pay) ''POST'' ActionsPath (Some (JObj P)) w
       \<and> map_of P ''action_type'' = Some (JStr ''purchase'')
       \<and> map_of P ''risk_level'' = Some (JStr ''medium'')"
    by (rule exI [of _ "request_action_payload ''purchase'' (''Purchase from '' @ merchant)
            (Some terms) ''medium'' True (Some amount) currency (Some merchant)
            metadata 300 None"])
       (simp add: request_payment_submits payload_required)
  have email: "email_keywords_ok kwargs \<longrightarrow>
    (\<exists>P. request_email self recipient subject preview kwargs w
            = request self ''POST'' ActionsPath (Some (JObj P)) w
       \<and> map_of P ''action_type'' = Some (JStr ''communication'')
       \<and> map_of P ''risk_level'' = Some (JStr (or_default (kw_risk_level kwargs) ''low'')))"
    using request_action_submits by (simp add: request_email_eq) blast
  have purchase: "purchase_keywords_ok kwargs \<longrightarrow>
    (\<exists>P. request_purchase self amount merchant description kwargs w
            = request self ''POST'' ActionsPath (Some (JObj P)) w
       \<and> map_of P ''action_type'' = Some (JStr ''purchase'')
       \<and> map_of P ''risk_level'' = Some (JStr (or_default (kw_risk_level kwargs) ''medium'')))"
    using request_action_submits by (simp add: request_purchase_eq) blast
  have booking: "booking_keywords_ok kwargs \<longrightarrow>
    (\<exists>P. request_booking self title description amount' kwargs w
            = request self ''POST'' ActionsPath (Some (JObj P)) w
       \<and> map_of P ''action_type'' = Some (JStr ''scheduling'')
       \<and> map_of P ''risk_level'' = Some (JStr (or_default (kw_risk_level kwargs) ''low'')))"
    using request_action_submits by (simp add: request_booking_eq) blast
  have post: "post_keywords_ok kwargs \<longrightarrow>
    (\<exists>P. request_post self platform content_preview kwargs w
            = request self ''POST'' ActionsPath (Some (JObj P)) w
       \<and> map_of P ''action_type'' = Some (JStr ''social'')
       \<and> map_of P ''risk_level'' = Some (JStr (or_default (kw_risk_level kwargs) ''medium'')))"
    using request_action_submits by (simp add: request_post_eq) blast
  have data: "data_access_keywords_ok kwargs \<longrightarrow>
    (\<exists>P. request_data_access self resource reason kwargs w
            = request self ''POST'' ActionsPath (Some (JObj P)) w
       \<and> map_of P ''action_type'' = Some (JStr ''data_access'')
       \<and> map_of P ''risk_level'' = Some (JStr (or_default (kw_risk_level kwargs) ''high'')))"
    using request_action_submits by (simp add: request_data_access_eq) blast
  have contract: "contract_keywords_ok kwargs \<longrightarrow>
    (\<exists>P. request_contract self title terms kwargs w
            = request self ''POST'' ActionsPath (Some (JObj P)) w
       \<and> map_of P ''action_type'' = Some (JStr ''legal'')
       \<and> map_of P ''reversible'' = Some (JBool False)
       \<and> map_of P ''risk_level'' = Some (JStr (or_default (kw_risk_level kwargs) ''critical'')))"
    using request_action_submits by (simp add: request_contract_eq) blast
  show ?thesis
    using pay email purchase booking post data contract
    by (simp add: request_email_eq request_purchase_eq request_booking_eq request_post_eq
        request_data_access_eq request_contract_eq)
qed

theorem helper_defaults_witness:
  "map call_json (calls (snd (request_email c0 ''john@company.com'' ''Q4'' None no_kwargs
       (w_of []))))
     = [Some (JObj [(''action_type'', JStr ''communication''),
                    (''title'', JStr ''Send email: Q4''),
                    (''risk_level'', JStr ''low''), (''reversible'', JBool True),
                    (''expires_in_seconds'', JNum 300),
                    (''recipient'', JStr ''john@company.com'')])]
 \<and> map call_json (calls (snd (request_purchase c0 10 ''OpenAI'' None kw_high (w_of []))))
     = [Some (JObj [(''action_type'', JStr ''purchase''),
                    (''title'', JStr ''Purchase from OpenAI''),
                    (''risk_level'', JStr ''high''), (''reversible'', JBool True),
                    (''expires_in_seconds'', JNum 300),
                    (''amount'', JNum 10), (''currency'', JStr ''USD''),
                    (''recipient'', JStr ''OpenAI'')])]
 \<and> map call_json (calls (snd (request_booking c0 ''Dinner'' None None no_kwargs (w_of []))))
     = [Some (JObj [(''action_type'', JStr ''scheduling''), (''title'', JStr ''Dinner''),
                    (''risk_level'', JStr ''low''), (''reversible'', JBool True),
                    (''expires_in_seconds'', JNum 300)])]
 \<and> map call_json (calls (snd (request_post c0 ''X'' ''hello'' no_kwargs (w_of []))))
     = [Some (JObj [(''action_type'', JStr ''social''), (''title'', JStr ''Post to X''),
                    (''risk_level'', JStr ''medium''), (''reversible'', JBool True),
                    (''expires_in_seconds'', JNum 300), (''description'', JStr ''hello'')])]
 \<and> map call_json (calls (snd (request_data_access c0 ''db'' ''audit'' no_kwargs (w_of []))))
     = [Some (JObj [(''action_type'', JStr ''data_access''), (''title'', JStr ''Access: db''),
                    (''risk_level'', JStr ''high''), (''reversible'', JBool True),
                    (''expires_in_seconds'', JNum 300), (''description'', JStr ''audit'')])]
 \<and> map call_json (calls (snd (request_contract c0 ''NDA'' ''Sign the NDA'' no_kwargs
       (w_of []))))
     = [Some (JObj [(''action_type'', JStr ''legal''), (''title'', JStr ''NDA''),
                    (''risk_level'', JStr ''critical''), (''reversible'', JBool False),
                    (''expires_in_seconds'', JNum 300),
                    (''description'', JStr ''Sign the NDA'')])]
 \<and> map call_json (calls (snd (request_contract c0 ''NDA'' ''Sign the NDA'' kw_high
       (w_of []))))
     = [Some (JObj [(''action_type'', JStr ''legal''), (''title'', JStr ''NDA''),
                    (''risk_level'', JStr ''high''), (''reversible'', JBool False),
                    (''expires_in_seconds'', JNum 300),
                    (''description'', JStr ''Sign the NDA'')])]
 \<and> request_email c0 ''john@company.com'' ''Q4'' None kw_buy (w_of [])
     = (Inl TypeError, w_of [])
 \<and> map call_json (calls (snd (request_payment (SynPayClient ''aa_demo'' default_base_url)
        (2999 / 100) ''OpenAI'' ''API credits'' ''USD'' None (w_of []))))
     = [Some (JObj [(''action_type'', JStr ''purchase''), (''title'', JStr ''Purchase from OpenAI''),
                    (''risk_level'', JStr ''medium''), (''reversible'', JBool True),
                    (''expires_in_seconds'', JNum 300),
                    (''description'', JStr ''API credits''),
                    (''amount'', JNum (2999 / 100)), (''currency'', JStr ''USD''),
                    (''recipient'', JStr ''OpenAI'')])]"
  using helper_defaults [where self = c0 and kwargs = no_kwargs and w = "w_of []"
      and recipient = "''john@company.com''" and subject = "''Q4''" and preview = None
      and title = "''NDA''" and terms = "''Sign the NDA''"
      and platform = "''X''" and content_preview = "''hello''"
      and resource = "''db''" and reason = "''audit''"
      and pay = "SynPayClient ''aa_demo'' default_base_url"
      and amount = "2999 / 100" and merchant = "''OpenAI''"
      and currency = "''USD''" and metadata = None]
    helper_defaults [where self = c0 and kwargs = kw_high and w = "w_of []"
      and amount = 10 and merchant = "''OpenAI''" and description = None
      and title = "''NDA''" and terms = "''Sign the NDA''"]
    helper_defaults [where self = c0 and kwargs = kw_buy and w = "w_of []"
      and recipient = "''john@company.com''" and subject = "''Q4''" and preview = None]
  by (simp add: request_email_eq request_purchase_eq request_booking_eq request_post_eq
      request_data_access_eq request_contract_eq request_payment_submits
      email_keywords_ok_def purchase_keywords_ok_def booking_keywords_ok_def
      post_keywords_ok_def data_access_keywords_ok_def contract_keywords_ok_def
      kw_high_def kw_buy_def no_kwargs_def
      request_action_def request_action_payload_def request_def w_of_def mk_call_def
      SynPayClient_def)

text \<open>
  C8. The payment client holds a \<open>SynAuthClient\<close> built from the same key and URL, and
  its \<open>get_status\<close>, \<open>wait_for_result\<close> and \<open>request_payment\<close> return what
  \<open>get_status\<close>, \<open>wait_for_result\<close> and \<open>request_purchase\<close> of that client return for
  the same arguments, in the same world.
\<close>

theorem pay_client_forwards:
  "auth (SynPayClient key url) = SynAuthClient key url
 \<and> pay_get_status pay request_id w = get_status (auth pay) request_id w
 \<and> pay_wait_for_result pay request_id timeout poll_interval w
     = wait_for_result (auth pay) request_id timeout poll_interval w
 \<and> request_payment pay amount merchant description currency metadata w
     = request_purchase (auth pay) amount merchant (Some description)
         (no_kwargs\<lparr>kw_currency := Some currency, kw_metadata := Some metadata\<rparr>) w"
  by (simp add: SynPayClient_def pay_get_status_def pay_wait_for_result_def request_payment_def)

theorem pay_client_forwards_witness:
  "pay_wait_for_result (SynPayClient ''aa_demo'' default_base_url) (JStr ''req_1'') 300 2
     (w_of [reply 0 (snapshot ''pending''), reply 0 (snapshot ''approved'')])
   = (Inr (snapshot ''approved''),
      \<lparr>now = 2, script = [],
       calls = [status_call c0 (JStr ''req_1''), status_call c0 (JStr ''req_1'')]\<rparr>)
 \<and> pay_get_status (SynPayClient ''aa_demo'' default_base_url) (JStr ''req_1'')
     (w_of [reply 0 (snapshot ''denied'')])
   = (Inr (snapshot ''denied''),
      \<lparr>now = 0, script = [], calls = [status_call c0 (JStr ''req_1'')]\<rparr>)"
  using pay_client_forwards [of "''aa_demo''" default_base_url
      "SynPayClient ''aa_demo'' default_base_url" "JStr ''req_1''"
      "w_of [reply 0 (snapshot ''pending''), reply 0 (snapshot ''approved'')]" 300 2]
    pay_client_forwards [of "''aa_demo''" default_base_url
      "SynPayClient ''aa_demo'' default_base_url" "JStr ''req_1''"
      "w_of [reply 0 (snapshot ''denied'')]"]
  by (simp add: eval_defs wait_loop.simps SynPayClient_def)

section \<open>The fingerprint is independent of the insertion order\<close>

lemma filter_key_distinct:
  "distinct (map fst xs) \<Longrightarrow> k \<in> set xs \<Longrightarrow> filter (\<lambda>x. fst k = fst x) xs = [k]"
proof (induction xs)
  case Nil
  then show ?case by simp
next
  case (Cons x xs)
  show ?case
  proof (cases "k = x")
    case True
    have "filter (\<lambda>y. fst x = fst y) xs = []"
      using Cons.prems(1) by (auto simp: filter_empty_conv image_iff)
    then show ?thesis using True by simp
  next
    case False
    then have "k \<in> set xs" using Cons.prems(2) by simp
    moreover have "fst k \<noteq> fst x"
      using Cons.prems(1) \<open>k \<in> set xs\<close> by (auto simp: image_iff)
    ultimately show ?thesis using Cons by simp
  qed
qed

lemma canonical_order_unique:
  assumes "distinct (map fst ps)" and "distinct (map fst qs)" and "set ps = set qs"
  shows "canonical_order ps = canonical_order qs"
proof -
  have dp: "distinct ps" and dq: "distinct qs"
    using assms(1,2) by (auto simp: distinct_map)
  have m: "mset qs = mset ps"
    using dp dq assms(3) by (simp add: set_eq_iff_mset_eq_distinct)
  have ds: "distinct (map fst (sort_key fst qs))"
    using assms(2) by (simp add: distinct_map)
  have "sort_key fst ps = sort_key fst qs"
  proof (rule properties_for_sort_key)
    show "mset (sort_key fst qs) = mset ps" using m by simp
  next
    fix k assume k: "k \<in> set (sort_key fst qs)"
    then have "k \<in> set ps" using assms(3) by simp
    then have "filter (\<lambda>x. fst k = fst x) ps = [k]"
      using assms(1) by (rule filter_key_distinct [rotated])
    moreover have "filter (\<lambda>x. fst k = fst x) (sort_key fst qs) = [k]"
      using ds k by (rule filter_key_distinct)
    ultimately show "filter (\<lambda>x. fst k = fst x) (sort_key fst qs)
                     = filter (\<lambda>x. fst k = fst x) ps" by simp
  next
    show "sorted (map fst (sort_key fst qs))" by simp
  qed
  then show ?thesis by (simp add: canonical_order_def)
qed

text \<open>
  C5. For two parameter mappings with the same key and value pairs, inserted in any
  order (a dict has each key once), \<open>compute_content_hash\<close> gives the same fingerprint,
  and the fingerprint computed by the client equals the one the backend computes over
  its copy of the mapping.
\<close>

theorem content_hash_order_independent:
  assumes "distinct (map fst ps)" and "distinct (map fst qs)" and "set ps = set qs"
  shows "compute_content_hash digest serialize ps = compute_content_hash digest serialize qs
       \<and> compute_content_hash digest serialize ps = backend_content_hash digest serialize qs"
  using canonical_order_unique [OF assms]
  by (simp add: compute_content_hash_def backend_content_hash_def)

theorem content_hash_order_independent_witness:
  "compute_content_hash rev keys_text trade_params
     = backend_content_hash rev keys_text trade_params_reordered
 \<and> compute_content_hash rev keys_text trade_params_reordered = rev ''quantity;side;ticker;''"
  using content_hash_order_independent [of trade_params trade_params_reordered rev keys_text]
  by (auto simp add: trade_params_def trade_params_reordered_def compute_content_hash_def
      canonical_order_def keys_text_def)

end
